theory Spec2Isabelle
  imports Main
begin

section \<open>Values shared by server and client\<close>

subsection \<open>Decimal rendering of a non-negative integer\<close>

text \<open>
  The source turns numbers into text in three places: the template literal
  \<^verbatim>\<open>`ORD-${Date.now()}`\<close>, the concatenation \<^verbatim>\<open>Date.now() + '-' + Math.round(...)\<close> and
  \<^verbatim>\<open>pages.join(',')\<close> / \<^verbatim>\<open>`1-${totalPages}`\<close> in the upload widget. Every number that
  reaches these places is a non-negative integer far below \<open>10^21\<close>, where JavaScript prints
  the plain decimal digits.
\<close>

definition decimal_digit :: "nat \<Rightarrow> char" where
  "decimal_digit d = ''0123456789'' ! d"

fun decimal :: "nat \<Rightarrow> string" where
  "decimal n = (if n < 10 then [decimal_digit n]
                else decimal (n div 10) @ [decimal_digit (n mod 10)])"

declare decimal.simps [simp del]

text \<open>Reading a digit string back: the left-to-right Horner scheme.\<close>

definition digit_value :: "char \<Rightarrow> nat" where
  "digit_value c = of_char c - 48"

definition undecimal :: "string \<Rightarrow> nat" where
  "undecimal s = foldl (\<lambda>acc c. 10 * acc + digit_value c) 0 s"

subsection \<open>JSON values and objects\<close>

text \<open>
  Request bodies and stored records are JSON. A record of either store is an object whose
  fields the server reads by name (\<open>order.orderId\<close>, \<open>file.serverPath\<close>), so an object is a
  map from field names to values; an absent field is JavaScript's \<open>undefined\<close>, which
  \<open>JSON.stringify\<close> leaves out.
\<close>

datatype json =
    JNull
  | JBool bool
  | JNum int
  | JStr string
  | JArr "json list"
  | JObj "(string \<times> json) list"

type_synonym jsobject = "string \<rightharpoonup> json"

text \<open>JavaScript truthiness of a field read, as \<^verbatim>\<open>if (file.serverPath)\<close> tests it.\<close>

fun truthy :: "json option \<Rightarrow> bool" where
  "truthy None = False"
| "truthy (Some JNull) = False"
| "truthy (Some (JBool b)) = b"
| "truthy (Some (JNum n)) = (n \<noteq> 0)"
| "truthy (Some (JStr s)) = (s \<noteq> [])"
| "truthy (Some (JArr _)) = True"
| "truthy (Some (JObj _)) = True"

section \<open>The server (server.js)\<close>

subsection \<open>Disk, faults and the trace of effects\<close>

text \<open>
  What \<open>fs.readFile\<close> followed by \<open>JSON.parse\<close> can meet at a path: no file, a file whose
  read is rejected with some other error code, a file whose text is not JSON, or a file
  holding an array of objects (the only thing \<open>writeOrders\<close> and \<open>writeFiles\<close> ever write).
\<close>

datatype stored =
    Missing
  | Failing string
  | Garbage
  | Holds "jsobject list"

datatype error =
    Fs_error string
  | Syntax_error
  | Type_error

fun code :: "error \<Rightarrow> string option" where
  "code (Fs_error c) = Some c"
| "code Syntax_error = None"
| "code Type_error = None"

text \<open>
  The trace records the calls on the file system and the lines written with
  \<open>console.error\<close>, each by its fixed label; \<open>console.log\<close> lines are left out.
\<close>

datatype event =
    ReadFile string
  | WriteFile string
  | Unlink string
  | ConsoleError string

record world =
  disk :: "string \<Rightarrow> stored"
  uploads :: "string set"
  write_faults :: "string \<rightharpoonup> string"
  unlink_faults :: "string \<rightharpoonup> string"
  events :: "event list"

definition emit :: "event \<Rightarrow> world \<Rightarrow> world" where
  "emit e w = w\<lparr>events := events w @ [e]\<rparr>"

text \<open>
  \<open>fs.readFile(path, 'utf8')\<close> then \<open>JSON.parse\<close>: one read is recorded; the outcome is the
  parsed array or the error thrown.
\<close>

definition readFile_parse :: "string \<Rightarrow> world \<Rightarrow> (error + jsobject list) \<times> world" where
  "readFile_parse p w =
     (case disk w p of
        Missing \<Rightarrow> Inl (Fs_error ''ENOENT'')
      | Failing c \<Rightarrow> Inl (Fs_error c)
      | Garbage \<Rightarrow> Inl Syntax_error
      | Holds xs \<Rightarrow> Inr xs,
      emit (ReadFile p) w)"

text \<open>
  \<open>fs.writeFile(path, JSON.stringify(data, null, 2))\<close>: one write is recorded; a faulty path
  rejects with its error code and the file keeps what it held.
\<close>

definition writeFile_json :: "string \<Rightarrow> jsobject list \<Rightarrow> world \<Rightarrow> (error + unit) \<times> world" where
  "writeFile_json p xs w =
     (case write_faults w p of
        Some c \<Rightarrow> (Inl (Fs_error c), emit (WriteFile p) w)
      | None \<Rightarrow> (Inr (), emit (WriteFile p) (w\<lparr>disk := (disk w)(p := Holds xs)\<rparr>)))"

text \<open>
  \<open>fs.unlink(path)\<close> with whatever value is passed as the path: a value that is not a string
  is refused with a type error before anything is tried; a string is one unlink call, which
  fails on a faulty path and on a blob that is not there.
\<close>

definition unlink :: "json option \<Rightarrow> world \<Rightarrow> (error + unit) \<times> world" where
  "unlink arg w =
     (case arg of
        Some (JStr p) \<Rightarrow>
          (case unlink_faults w p of
             Some c \<Rightarrow> (Inl (Fs_error c), emit (Unlink p) w)
           | None \<Rightarrow>
               if p \<in> uploads w
               then (Inr (), emit (Unlink p) (w\<lparr>uploads := uploads w - {p}\<rparr>))
               else (Inl (Fs_error ''ENOENT''), emit (Unlink p) w))
      | _ \<Rightarrow> (Inl Type_error, w))"

subsection \<open>Helper functions for data persistence\<close>

definition readOrders :: "world \<Rightarrow> (error + jsobject list) \<times> world" where
  "readOrders w =
     (case readFile_parse ''data/orders.json'' w of
        (Inr data, w') \<Rightarrow> (Inr data, w')
      | (Inl e, w') \<Rightarrow> if code e = Some ''ENOENT'' then (Inr [], w') else (Inl e, w'))"

definition writeOrders :: "jsobject list \<Rightarrow> world \<Rightarrow> (error + unit) \<times> world" where
  "writeOrders orders w = writeFile_json ''data/orders.json'' orders w"

definition readFiles :: "world \<Rightarrow> (error + jsobject list) \<times> world" where
  "readFiles w =
     (case readFile_parse ''data/files.json'' w of
        (Inr data, w') \<Rightarrow> (Inr data, w')
      | (Inl e, w') \<Rightarrow> if code e = Some ''ENOENT'' then (Inr [], w') else (Inl e, w'))"

definition writeFiles :: "jsobject list \<Rightarrow> world \<Rightarrow> (error + unit) \<times> world" where
  "writeFiles files w = writeFile_json ''data/files.json'' files w"

subsection \<open>Responses\<close>

datatype payload =
    Arr "jsobject list"
  | Obj jsobject

type_synonym response = "nat \<times> payload"

definition res_json :: "payload \<Rightarrow> response" where
  "res_json p = (200, p)"

definition res_status_json :: "nat \<Rightarrow> payload \<Rightarrow> response" where
  "res_status_json s p = (s, p)"

definition error_body :: "string \<Rightarrow> payload" where
  "error_body msg = Obj [''error'' \<mapsto> JStr msg]"

definition message_body :: "string \<Rightarrow> payload" where
  "message_body msg = Obj [''message'' \<mapsto> JStr msg]"

subsection \<open>Orders API\<close>

text \<open>
  \<open>Array.prototype.findIndex\<close>: the index of the first element satisfying the predicate,
  \<open>-1\<close> when there is none.
\<close>

fun findIndex :: "('a \<Rightarrow> bool) \<Rightarrow> 'a list \<Rightarrow> int" where
  "findIndex P [] = - 1"
| "findIndex P (x # xs) =
     (if P x then 0 else (let i = findIndex P xs in if i = - 1 then - 1 else i + 1))"

text \<open>\<open>GET /api/orders\<close>\<close>

definition get_orders :: "world \<Rightarrow> response \<times> world" where
  "get_orders w =
     (case readOrders w of
        (Inr orders, w1) \<Rightarrow> (res_json (Arr orders), w1)
      | (Inl e, w1) \<Rightarrow>
          (res_status_json 500 (error_body ''Failed to read orders''),
           emit (ConsoleError ''Error reading orders:'') w1))"

text \<open>
  \<open>POST /api/orders\<close>. \<open>now\<close> is the value of \<open>Date.now()\<close> on line 119 and \<open>isoString\<close> the
  value of \<open>new Date().toISOString()\<close> on line 120. The object literal spreads the body
  first and then sets the three stamped fields.
\<close>

definition stamp :: "nat \<Rightarrow> string \<Rightarrow> jsobject \<Rightarrow> jsobject" where
  "stamp now isoString body =
     body(''orderId'' \<mapsto> JStr (''ORD-'' @ decimal now),
          ''orderDate'' \<mapsto> JStr isoString,
          ''status'' \<mapsto> JStr ''pending'')"

definition post_orders :: "nat \<Rightarrow> string \<Rightarrow> jsobject \<Rightarrow> world \<Rightarrow> response \<times> world" where
  "post_orders now isoString body w =
     (case readOrders w of
        (Inl e, w1) \<Rightarrow>
          (res_status_json 500 (error_body ''Failed to create order''),
           emit (ConsoleError ''Error creating order:'') w1)
      | (Inr orders, w1) \<Rightarrow>
          (let newOrder = stamp now isoString body
           in case writeOrders (orders @ [newOrder]) w1 of
                (Inl e, w2) \<Rightarrow>
                  (res_status_json 500 (error_body ''Failed to create order''),
                   emit (ConsoleError ''Error creating order:'') w2)
              | (Inr u, w2) \<Rightarrow> (res_json (Obj newOrder), w2)))"

text \<open>
  \<open>PUT /api/orders/:orderId\<close>. The route parameter is a string; \<open>status\<close> is whatever the
  body carries under that name, \<open>undefined\<close> when it carries nothing, in which case the
  field is absent from what is written and returned.
\<close>

definition put_order :: "string \<Rightarrow> jsobject \<Rightarrow> world \<Rightarrow> response \<times> world" where
  "put_order orderId body w =
     (let status = body ''status''
      in case readOrders w of
           (Inl e, w1) \<Rightarrow>
             (res_status_json 500 (error_body ''Failed to update order''),
              emit (ConsoleError ''Error updating order:'') w1)
         | (Inr orders, w1) \<Rightarrow>
             (let orderIndex = findIndex (\<lambda>order. order ''orderId'' = Some (JStr orderId)) orders
              in if orderIndex = - 1
                 then (res_status_json 404 (error_body ''Order not found''), w1)
                 else
                   (let i = nat orderIndex;
                        orders' = orders[i := (orders ! i)(''status'' := status)]
                    in case writeOrders orders' w1 of
                         (Inl e, w2) \<Rightarrow>
                           (res_status_json 500 (error_body ''Failed to update order''),
                            emit (ConsoleError ''Error updating order:'') w2)
                       | (Inr u, w2) \<Rightarrow> (res_json (Obj (orders' ! i)), w2))))"

text \<open>\<open>GET /api/orders/:orderId\<close>\<close>

definition get_order :: "string \<Rightarrow> world \<Rightarrow> response \<times> world" where
  "get_order orderId w =
     (case readOrders w of
        (Inl e, w1) \<Rightarrow>
          (res_status_json 500 (error_body ''Failed to find order''),
           emit (ConsoleError ''Error finding order:'') w1)
      | (Inr orders, w1) \<Rightarrow>
          (case find (\<lambda>order. order ''orderId'' = Some (JStr orderId)) orders of
             None \<Rightarrow> (res_status_json 404 (error_body ''Order not found''), w1)
           | Some order \<Rightarrow> (res_json (Obj order), w1)))"

text \<open>\<open>DELETE /api/orders\<close>\<close>

definition delete_orders :: "world \<Rightarrow> response \<times> world" where
  "delete_orders w =
     (case writeOrders [] w of
        (Inl e, w1) \<Rightarrow>
          (res_status_json 500 (error_body ''Failed to delete orders''),
           emit (ConsoleError ''Error deleting orders:'') w1)
      | (Inr u, w1) \<Rightarrow> (res_json (message_body ''All orders deleted''), w1))"

subsection \<open>Upload API\<close>

text \<open>
  A part of the multipart submission as multer hands it to the storage engine, and the
  entry of \<open>req.files\<close> that multer's disk storage makes of it: \<open>filename\<close> is what the
  configured callback returned and \<open>path\<close> is the destination \<open>uploads/\<close> joined with it
  (multer keeps only the base name of the client's file name, so nothing is normalised
  away in the join). \<open>size_bytes\<close> is the field \<open>size\<close>. A part above the configured
  \<open>fileSize\<close> limit makes multer fail the request before the handler runs; the handler
  below only ever sees the parts that were stored.
\<close>

record part =
  originalname :: string
  mimetype :: string
  size_bytes :: nat

record multer_file = part +
  filename :: string
  path :: string



text \<open>The metadata record the upload handler builds for one entry of \<open>req.files\<close>.\<close>

definition file_record :: "multer_file \<Rightarrow> jsobject" where
  "file_record file =
     [''name'' \<mapsto> JStr (originalname file),
      ''size'' \<mapsto> JNum (int (size_bytes file)),
      ''type'' \<mapsto> JStr (mimetype file),
      ''path'' \<mapsto> JStr (''/uploads/'' @ filename file),
      ''serverPath'' \<mapsto> JStr (path file)]"

text \<open>
  \<open>POST /api/upload\<close>, after \<open>upload.array('files')\<close> has filled \<open>req.files\<close> (\<open>None\<close>: the
  field is undefined, as for a request that is not multipart).
\<close>

definition post_upload :: "multer_file list option \<Rightarrow> world \<Rightarrow> response \<times> world" where
  "post_upload req_files w =
     (case req_files of
        None \<Rightarrow> (res_status_json 400 (error_body ''No files uploaded''), w)
      | Some fs \<Rightarrow>
          if length fs = 0
          then (res_status_json 400 (error_body ''No files uploaded''), w)
          else
            (case readFiles w of
               (Inl e, w1) \<Rightarrow>
                 (res_status_json 500 (error_body ''Failed to upload files''),
                  emit (ConsoleError ''Error uploading files:'') w1)
             | (Inr files, w1) \<Rightarrow>
                 (let uploadedFiles = map file_record fs
                  in case writeFiles (files @ uploadedFiles) w1 of
                       (Inl e, w2) \<Rightarrow>
                         (res_status_json 500 (error_body ''Failed to upload files''),
                          emit (ConsoleError ''Error uploading files:'') w2)
                     | (Inr u, w2) \<Rightarrow> (res_json (Arr uploadedFiles), w2))))"

text \<open>\<open>GET /api/files\<close>\<close>

definition get_files :: "world \<Rightarrow> response \<times> world" where
  "get_files w =
     (case readFiles w of
        (Inr files, w1) \<Rightarrow> (res_json (Arr files), w1)
      | (Inl e, w1) \<Rightarrow>
          (res_status_json 500 (error_body ''Failed to read files''),
           emit (ConsoleError ''Error reading files:'') w1))"

text \<open>
  \<open>DELETE /api/files\<close>. The loop over the records: a falsy \<open>serverPath\<close> is skipped; a
  string is unlinked; any other truthy value makes \<open>fs.unlink\<close> throw a type error. Whatever
  is thrown inside the loop body is caught there and logged, and the loop goes on.
\<close>

definition delete_physical_file :: "jsobject \<Rightarrow> world \<Rightarrow> world" where
  "delete_physical_file file w =
     (if truthy (file ''serverPath'')
      then (case unlink (file ''serverPath'') w of
              (Inr u, w1) \<Rightarrow> w1
            | (Inl error, w1) \<Rightarrow> emit (ConsoleError ''Error deleting file:'') w1)
      else w)"

fun delete_physical_files :: "jsobject list \<Rightarrow> world \<Rightarrow> world" where
  "delete_physical_files [] w = w"
| "delete_physical_files (file # files) w =
     delete_physical_files files (delete_physical_file file w)"

definition delete_files :: "world \<Rightarrow> response \<times> world" where
  "delete_files w =
     (case readFiles w of
        (Inl e, w1) \<Rightarrow>
          (res_status_json 500 (error_body ''Failed to delete files''),
           emit (ConsoleError ''Error deleting files:'') w1)
      | (Inr files, w1) \<Rightarrow>
          (let w2 = delete_physical_files files w1
           in case writeFiles [] w2 of
                (Inl e, w3) \<Rightarrow>
                  (res_status_json 500 (error_body ''Failed to delete files''),
                   emit (ConsoleError ''Error deleting files:'') w3)
              | (Inr u, w3) \<Rightarrow> (res_json (message_body ''All files deleted''), w3)))"

subsection \<open>Admin login\<close>

definition admin_login :: "jsobject \<Rightarrow> response" where
  "admin_login body =
     (let username = body ''username''; password = body ''password''
      in if username = Some (JStr ''admin'') \<and> password = Some (JStr ''xerox123'')
         then res_json (Obj [''success'' \<mapsto> JBool True, ''token'' \<mapsto> JStr ''admin-token''])
         else res_status_json 401 (error_body ''Invalid credentials''))"

section \<open>The upload widget (FileUploader component)\<close>

text \<open>
  A browser \<open>File\<close> as the widget uses it: name, MIME type and byte size. \<open>numPages\<close> stands
  for the file's content as far as the widget looks at it: \<open>Some n\<close> when
  \<open>pdfjs.getDocument(...)\<close> resolves to a document of \<open>n\<close> pages, \<open>None\<close> when reading or
  parsing is rejected. \<open>file_size\<close> is the field \<open>size\<close>.
\<close>

record browser_file =
  name :: string
  type :: string
  file_size :: nat
  numPages :: "nat option"

definition allowedTypes :: "string list" where
  "allowedTypes =
     [''application/pdf'',
      ''application/msword'',
      ''application/vnd.openxmlformats-officedocument.wordprocessingml.document'']"

definition isValidFileType :: "browser_file \<Rightarrow> bool" where
  "isValidFileType f = (type f \<in> set allowedTypes)"

text \<open>
  One round of the loop in \<open>calculateTotalPages\<close>: the pages added for one file. \<open>d\<close> is the
  value of \<open>Math.floor(Math.random() * 20)\<close> drawn in this round should the PDF fail to
  parse; it lies in \<open>0..19\<close>, which \<open>mod 20\<close> enforces here.
\<close>

definition pages_for :: "nat \<Rightarrow> browser_file \<Rightarrow> nat" where
  "pages_for d f =
     (if type f = ''application/pdf''
      then (case numPages f of
              Some n \<Rightarrow> n
            | None \<Rightarrow> (let estimatedPages = d mod 20 + 1 in estimatedPages))
      else (let estimatedPages = max 1 (file_size f div 50000) in estimatedPages))"

text \<open>
  The loop itself, with the running total; \<open>random i\<close> is the draw available to the round
  of the \<open>i\<close>-th file. Nothing escapes the loop body's \<open>try\<close>, so the function always
  returns a number.
\<close>

fun calculateTotalPages_loop :: "(nat \<Rightarrow> nat) \<Rightarrow> nat \<Rightarrow> nat \<Rightarrow> browser_file list \<Rightarrow> nat" where
  "calculateTotalPages_loop random i totalPages [] = totalPages"
| "calculateTotalPages_loop random i totalPages (f # fileList) =
     calculateTotalPages_loop random (Suc i) (totalPages + pages_for (random i) f) fileList"

definition calculateTotalPages :: "(nat \<Rightarrow> nat) \<Rightarrow> browser_file list \<Rightarrow> nat" where
  "calculateTotalPages random fileList = calculateTotalPages_loop random 0 0 fileList"

text \<open>
  The component's state as far as the two handlers use it, and the calls it makes on its
  three callback props. A \<open>Set\<close> of page numbers is the list of its members in insertion
  order.
\<close>

record widget =
  files :: "browser_file list"
  selectedPages :: "nat list"

datatype callback =
    onFilesChange "browser_file list"
  | onPageCountChange nat
  | onPageRangeChange string

text \<open>
  \<open>handleFiles\<close>: the callbacks made, in order, and the state set. Storing each file in the
  file storage service, the notices and the processing flag do not bear on either.
\<close>

definition handleFiles :: "(nat \<Rightarrow> nat) \<Rightarrow> browser_file list \<Rightarrow> widget \<Rightarrow> widget \<times> callback list" where
  "handleFiles random newFiles st =
     (let validFiles = filter isValidFileType newFiles
      in if length validFiles > 0
         then (let updatedFiles = files st @ validFiles;
                   totalPages = calculateTotalPages random updatedFiles
               in (st\<lparr>files := updatedFiles\<rparr>,
                   [onFilesChange updatedFiles,
                    onPageCountChange totalPages,
                    onPageRangeChange
                      (if totalPages > 0 then ''1-'' @ decimal totalPages else ''all'')]))
         else (st, []))"

text \<open>\<open>Array.prototype.join\<close> on the strings of the elements.\<close>

fun join :: "string \<Rightarrow> string list \<Rightarrow> string" where
  "join sep [] = []"
| "join sep [x] = x"
| "join sep (x # y # ys) = x @ sep @ join sep (y # ys)"

definition handlePageSelect :: "nat \<Rightarrow> widget \<Rightarrow> widget \<times> callback list" where
  "handlePageSelect pageNum st =
     (let newSelectedPages =
            (if pageNum \<in> set (selectedPages st)
             then removeAll pageNum (selectedPages st)
             else selectedPages st @ [pageNum])
      in (st\<lparr>selectedPages := newSelectedPages\<rparr>,
          [if length newSelectedPages > 0
           then (let pages = sort newSelectedPages
                 in onPageRangeChange (join '','' (map decimal pages)))
           else onPageRangeChange ''all'']))"

section \<open>Runs of requests and vocabulary for the statements\<close>

text \<open>
  Create-order requests handled one after the other, each with its own clock readings and
  body; the responses in order and the world left behind.
\<close>

fun create_orders :: "(nat \<times> string \<times> jsobject) list \<Rightarrow> world \<Rightarrow> response list \<times> world" where
  "create_orders [] w = ([], w)"
| "create_orders ((now, isoString, body) # reqs) w =
     (case post_orders now isoString body w of
        (r, w1) \<Rightarrow> (case create_orders reqs w1 of (rs, w2) \<Rightarrow> (r # rs, w2)))"

text \<open>Page toggles in the preview, one after the other, with every callback made.\<close>

fun select_pages :: "nat list \<Rightarrow> widget \<Rightarrow> widget \<times> callback list" where
  "select_pages [] st = (st, [])"
| "select_pages (pageNum # rest) st =
     (case handlePageSelect pageNum st of
        (st1, cs) \<Rightarrow> (case select_pages rest st1 of (st2, cs') \<Rightarrow> (st2, cs @ cs')))"

text \<open>
  The paths that the delete-all loop hands to \<open>fs.unlink\<close>: the non-empty string values of
  \<open>serverPath\<close>, in the order of the records.
\<close>

fun blob_paths :: "jsobject list \<Rightarrow> string list" where
  "blob_paths [] = []"
| "blob_paths (record # records) =
     (case record ''serverPath'' of
        Some (JStr p) \<Rightarrow> if p \<noteq> [] then p # blob_paths records else blob_paths records
      | _ \<Rightarrow> blob_paths records)"

text \<open>The console lines of a trace.\<close>

fun console_errors :: "event list \<Rightarrow> string list" where
  "console_errors [] = []"
| "console_errors (ConsoleError msg # es) = msg # console_errors es"
| "console_errors (e # es) = console_errors es"

text \<open>The unlink calls of a trace.\<close>

fun unlinks :: "event list \<Rightarrow> string list" where
  "unlinks [] = []"
| "unlinks (Unlink p # es) = p # unlinks es"
| "unlinks (e # es) = unlinks es"

section \<open>A concrete world for examples\<close>

text \<open>
  The server right after start on an empty directory: \<open>ensureDirectories\<close> has made
  \<open>data/\<close> and \<open>uploads/\<close>, neither store file exists, nothing is faulty and nothing has
  happened yet.
\<close>

definition fresh_world :: world where
  "fresh_world =
     \<lparr>disk = (\<lambda>p. Missing), uploads = {}, write_faults = Map.empty,
      unlink_faults = Map.empty, events = []\<rparr>"

text \<open>
  A server whose metadata list has three records: the blob of the first is on disk, the
  blob of the second is on disk but cannot be unlinked, the blob of the third is gone.
\<close>

definition three_files_world :: world where
  "three_files_world =
     \<lparr>disk = (\<lambda>p. Missing)(''data/files.json'' :=
         Holds [[''name'' \<mapsto> JStr ''a.pdf'', ''serverPath'' \<mapsto> JStr ''uploads/a''],
                [''name'' \<mapsto> JStr ''b.pdf'', ''serverPath'' \<mapsto> JStr ''uploads/b''],
                [''name'' \<mapsto> JStr ''c.pdf'', ''serverPath'' \<mapsto> JStr ''uploads/c'']]),
      uploads = {''uploads/a'', ''uploads/b''},
      write_faults = Map.empty,
      unlink_faults = [''uploads/b'' \<mapsto> ''EPERM''],
      events = []\<rparr>"

section \<open>Properties\<close>

subsection \<open>Decimal rendering is injective and uses digits only\<close>

lemma decimal_small: "n < 10 \<Longrightarrow> decimal n = [decimal_digit n]"
  by (simp add: decimal.simps)

lemma decimal_large: "10 \<le> n \<Longrightarrow> decimal n = decimal (n div 10) @ [decimal_digit (n mod 10)]"
  by (subst decimal.simps) simp

lemma below_ten_cases:
  assumes "d < (10::nat)"
  shows "d = 0 \<or> d = 1 \<or> d = 2 \<or> d = 3 \<or> d = 4 \<or> d = 5 \<or> d = 6 \<or> d = 7 \<or> d = 8 \<or> d = 9"
  using assms by arith

lemma digit_value_decimal_digit:
  assumes "d < 10"
  shows "digit_value (decimal_digit d) = d"
  using below_ten_cases [OF assms]
  by (elim disjE) (simp_all add: decimal_digit_def digit_value_def)


lemma undecimal_snoc: "undecimal (s @ [c]) = 10 * undecimal s + digit_value c"
  by (simp add: undecimal_def)

lemma undecimal_decimal: "undecimal (decimal n) = n"
proof (induction n rule: decimal.induct)
  case (1 n)
  show ?case
  proof (cases "n < 10")
    case True
    then show ?thesis
      by (simp add: decimal_small undecimal_def digit_value_decimal_digit)
  next
    case False
    then have "undecimal (decimal (n div 10)) = n div 10"
      using "1.IH" by simp
    with False show ?thesis
      by (simp add: decimal_large undecimal_snoc digit_value_decimal_digit)
  qed
qed

lemma decimal_inj:
  assumes "decimal a = decimal b"
  shows "a = b"
proof -
  have "undecimal (decimal a) = undecimal (decimal b)"
    using assms by simp
  then show ?thesis
    by (simp only: undecimal_decimal)
qed





subsection \<open>Admin login\<close>

text \<open>
  C9. A login request is answered with the success payload carrying the token exactly when
  the submitted username is the string \<open>admin\<close> and the submitted password is the string
  \<open>xerox123\<close>; every other request, including one that omits a field or sends a value that
  is not a string, is answered 401 with the error \<open>Invalid credentials\<close>.
\<close>

theorem admin_login_iff_credentials:
  "(admin_login body =
      (200, Obj [''success'' \<mapsto> JBool True, ''token'' \<mapsto> JStr ''admin-token''])
    \<longleftrightarrow> body ''username'' = Some (JStr ''admin'') \<and> body ''password'' = Some (JStr ''xerox123''))
   \<and> (admin_login body = (401, Obj [''error'' \<mapsto> JStr ''Invalid credentials''])
    \<longleftrightarrow> \<not> (body ''username'' = Some (JStr ''admin'') \<and> body ''password'' = Some (JStr ''xerox123'')))"
  by (simp add: admin_login_def res_json_def res_status_json_def error_body_def Let_def)

theorem admin_login_iff_credentials_witness:
  "admin_login [''username'' \<mapsto> JStr ''admin'', ''password'' \<mapsto> JStr ''xerox123'']
     = (200, Obj [''success'' \<mapsto> JBool True, ''token'' \<mapsto> JStr ''admin-token''])
   \<and> admin_login [''username'' \<mapsto> JStr ''admin'', ''password'' \<mapsto> JStr ''xerox124'']
     = (401, Obj [''error'' \<mapsto> JStr ''Invalid credentials''])"
  using admin_login_iff_credentials
          [of "[''username'' \<mapsto> JStr ''admin'', ''password'' \<mapsto> JStr ''xerox123'']"]
        admin_login_iff_credentials
          [of "[''username'' \<mapsto> JStr ''admin'', ''password'' \<mapsto> JStr ''xerox124'']"]
  by simp

subsection \<open>Store helpers and the trace\<close>

lemma emit_fields:
  "disk (emit e w) = disk w"
  "uploads (emit e w) = uploads w"
  "write_faults (emit e w) = write_faults w"
  "unlink_faults (emit e w) = unlink_faults w"
  "events (emit e w) = events w @ [e]"
  by (simp_all add: emit_def)

lemma readOrders_eq:
  "readOrders w =
     (case disk w ''data/orders.json'' of
        Missing \<Rightarrow> Inr []
      | Failing c \<Rightarrow> if c = ''ENOENT'' then Inr [] else Inl (Fs_error c)
      | Garbage \<Rightarrow> Inl Syntax_error
      | Holds xs \<Rightarrow> Inr xs,
      emit (ReadFile ''data/orders.json'') w)"
  by (simp add: readOrders_def readFile_parse_def split: stored.splits)

lemma readFiles_eq:
  "readFiles w =
     (case disk w ''data/files.json'' of
        Missing \<Rightarrow> Inr []
      | Failing c \<Rightarrow> if c = ''ENOENT'' then Inr [] else Inl (Fs_error c)
      | Garbage \<Rightarrow> Inl Syntax_error
      | Holds xs \<Rightarrow> Inr xs,
      emit (ReadFile ''data/files.json'') w)"
  by (simp add: readFiles_def readFile_parse_def split: stored.splits)

lemma snd_readOrders: "snd (readOrders w) = emit (ReadFile ''data/orders.json'') w"
  by (simp add: readOrders_eq)

lemma snd_readFiles: "snd (readFiles w) = emit (ReadFile ''data/files.json'') w"
  by (simp add: readFiles_eq)

lemma readOrders_split: "readOrders w = (fst (readOrders w), emit (ReadFile ''data/orders.json'') w)"
  by (simp add: readOrders_eq)

lemma readFiles_split: "readFiles w = (fst (readFiles w), emit (ReadFile ''data/files.json'') w)"
  by (simp add: readFiles_eq)

lemma writeFile_json_ok:
  "write_faults w p = None \<Longrightarrow>
   writeFile_json p xs w = (Inr (), emit (WriteFile p) (w\<lparr>disk := (disk w)(p := Holds xs)\<rparr>))"
  by (simp add: writeFile_json_def)

lemma writeFile_json_fault:
  "write_faults w p = Some c \<Longrightarrow> writeFile_json p xs w = (Inl (Fs_error c), emit (WriteFile p) w)"
  by (simp add: writeFile_json_def)

subsection \<open>Update status\<close>

lemma findIndex_ge: "- 1 \<le> findIndex P xs"
  by (induction xs) (auto simp: Let_def)

lemma findIndex_none_iff: "findIndex P xs = - 1 \<longleftrightarrow> (\<forall>x \<in> set xs. \<not> P x)"
proof (induction xs)
  case Nil
  show ?case by simp
next
  case (Cons x xs)
  have "findIndex P xs + 1 \<noteq> - 1"
    using findIndex_ge [of P xs] by arith
  with Cons show ?case by (auto simp: Let_def)
qed

lemma findIndex_first:
  "findIndex P xs \<noteq> - 1 \<Longrightarrow>
     nat (findIndex P xs) < length xs \<and> P (xs ! nat (findIndex P xs))
     \<and> (\<forall>j < nat (findIndex P xs). \<not> P (xs ! j))"
proof (induction xs)
  case Nil
  then show ?case by simp
next
  case (Cons x xs)
  show ?case
  proof (cases "P x")
    case True
    then show ?thesis by simp
  next
    case False
    with Cons.prems have ne: "findIndex P xs \<noteq> - 1"
      by (auto simp: Let_def split: if_splits)
    then have ge: "0 \<le> findIndex P xs"
      using findIndex_ge [of P xs] by arith
    from False ne have eq: "findIndex P (x # xs) = findIndex P xs + 1"
      by (simp add: Let_def)
    from ge have n: "nat (findIndex P xs + 1) = Suc (nat (findIndex P xs))"
      by arith
    from Cons.IH [OF ne] False show ?thesis
      unfolding eq n by (auto simp: less_Suc_eq_0_disj)
  qed
qed

lemma findIndex_eq:
  assumes "i < length xs" "P (xs ! i)" "\<forall>j < i. \<not> P (xs ! j)"
  shows "findIndex P xs = int i"
proof -
  have "\<exists>x \<in> set xs. P x"
    using assms(1,2) nth_mem by blast
  then have ne: "findIndex P xs \<noteq> - 1"
    by (simp add: findIndex_none_iff)
  define k where "k = nat (findIndex P xs)"
  from findIndex_first [OF ne]
  have k: "k < length xs" "P (xs ! k)" "\<forall>j < k. \<not> P (xs ! j)"
    by (simp_all add: k_def)
  have "\<not> k < i" using assms(3) k(2) by blast
  moreover have "\<not> i < k" using k(3) assms(2) by blast
  ultimately have "k = i" by arith
  moreover have "0 \<le> findIndex P xs"
    using ne findIndex_ge [of P xs] by arith
  ultimately show ?thesis by (simp add: k_def)
qed

text \<open>
  C3. Let the order store be readable (the file holds an array, or is missing and counts as
  empty). If no record carries the requested \<open>orderId\<close>, the update answers 404
  \<open>Order not found\<close>, the disk is what it was and the only file operation is the one read: no
  write occurs. If \<open>i\<close> is the first record carrying the \<open>orderId\<close> and the write is not
  rejected, the answer is 200 with that record, its \<open>status\<close> replaced by the body's
  \<open>status\<close> and nothing else changed; the persisted list is the old list
  with exactly that record replaced, written by one write after the one read.
\<close>

theorem put_order_not_found_or_updated:
  assumes "fst (readOrders w) = Inr orders"
  shows "((\<forall>order \<in> set orders. order ''orderId'' \<noteq> Some (JStr orderId)) \<longrightarrow>
            fst (put_order orderId body w) = (404, Obj [''error'' \<mapsto> JStr ''Order not found''])
          \<and> disk (snd (put_order orderId body w)) = disk w
          \<and> events (snd (put_order orderId body w)) = events w @ [ReadFile ''data/orders.json''])
       \<and> (i < length orders \<and> (orders ! i) ''orderId'' = Some (JStr orderId)
            \<and> (\<forall>j < i. (orders ! j) ''orderId'' \<noteq> Some (JStr orderId))
            \<and> write_faults w ''data/orders.json'' = None \<longrightarrow>
            fst (put_order orderId body w)
              = (200, Obj ((orders ! i)(''status'' := body ''status'')))
          \<and> disk (snd (put_order orderId body w))
              = (disk w)(''data/orders.json'' :=
                   Holds (orders[i := (orders ! i)(''status'' := body ''status'')]))
          \<and> events (snd (put_order orderId body w))
              = events w @ [ReadFile ''data/orders.json'', WriteFile ''data/orders.json''])"
proof (intro conjI impI)
  let ?P = "\<lambda>order::jsobject. order ''orderId'' = Some (JStr orderId)"
  have rd: "readOrders w = (Inr orders, emit (ReadFile ''data/orders.json'') w)"
    using assms readOrders_split [of w] by simp
  {
    assume "\<forall>order \<in> set orders. order ''orderId'' \<noteq> Some (JStr orderId)"
    then have none: "findIndex ?P orders = - 1"
      by (simp add: findIndex_none_iff)
    show "fst (put_order orderId body w) = (404, Obj [''error'' \<mapsto> JStr ''Order not found''])"
      by (simp add: put_order_def rd none res_status_json_def error_body_def)
    show "disk (snd (put_order orderId body w)) = disk w"
      by (simp add: put_order_def rd none emit_fields)
    show "events (snd (put_order orderId body w)) = events w @ [ReadFile ''data/orders.json'']"
      by (simp add: put_order_def rd none emit_fields)
  }
  {
    assume h: "i < length orders \<and> (orders ! i) ''orderId'' = Some (JStr orderId)
            \<and> (\<forall>j < i. (orders ! j) ''orderId'' \<noteq> Some (JStr orderId))
            \<and> write_faults w ''data/orders.json'' = None"
    then have idx: "findIndex ?P orders = int i"
      by (intro findIndex_eq) simp_all
    have wr: "write_faults (emit (ReadFile ''data/orders.json'') w) ''data/orders.json'' = None"
      using h by (simp add: emit_fields)
    show "fst (put_order orderId body w) = (200, Obj ((orders ! i)(''status'' := body ''status'')))"
      using h
      by (simp add: put_order_def rd Let_def writeOrders_def writeFile_json_ok [OF wr]
            res_json_def idx)
    show "disk (snd (put_order orderId body w))
          = (disk w)(''data/orders.json'' :=
               Holds (orders[i := (orders ! i)(''status'' := body ''status'')]))"
      by (simp add: put_order_def rd Let_def writeOrders_def writeFile_json_ok [OF wr]
            emit_fields idx)
    show "events (snd (put_order orderId body w))
              = events w @ [ReadFile ''data/orders.json'', WriteFile ''data/orders.json'']"
      by (simp add: put_order_def rd Let_def writeOrders_def writeFile_json_ok [OF wr]
            emit_fields idx)
  }
qed

theorem put_order_not_found_or_updated_witness:
  "fst (readOrders (fresh_world\<lparr>disk := (disk fresh_world)(''data/orders.json'' :=
          Holds [[''orderId'' \<mapsto> JStr ''ORD-1'', ''status'' \<mapsto> JStr ''pending''],
                 [''orderId'' \<mapsto> JStr ''ORD-2'', ''status'' \<mapsto> JStr ''pending'']])\<rparr>))
     = Inr [[''orderId'' \<mapsto> JStr ''ORD-1'', ''status'' \<mapsto> JStr ''pending''],
            [''orderId'' \<mapsto> JStr ''ORD-2'', ''status'' \<mapsto> JStr ''pending'']]
   \<and> fst (put_order ''ORD-9'' [''status'' \<mapsto> JStr ''done'']
          (fresh_world\<lparr>disk := (disk fresh_world)(''data/orders.json'' :=
          Holds [[''orderId'' \<mapsto> JStr ''ORD-1'', ''status'' \<mapsto> JStr ''pending''],
                 [''orderId'' \<mapsto> JStr ''ORD-2'', ''status'' \<mapsto> JStr ''pending'']])\<rparr>))
     = (404, Obj [''error'' \<mapsto> JStr ''Order not found''])
   \<and> fst (put_order ''ORD-2'' [''status'' \<mapsto> JStr ''done'']
          (fresh_world\<lparr>disk := (disk fresh_world)(''data/orders.json'' :=
          Holds [[''orderId'' \<mapsto> JStr ''ORD-1'', ''status'' \<mapsto> JStr ''pending''],
                 [''orderId'' \<mapsto> JStr ''ORD-2'', ''status'' \<mapsto> JStr ''pending'']])\<rparr>))
     = (200, Obj [''orderId'' \<mapsto> JStr ''ORD-2'', ''status'' \<mapsto> JStr ''done''])"
proof -
  let ?A = "[''orderId'' \<mapsto> JStr ''ORD-1'', ''status'' \<mapsto> JStr ''pending'']"
  let ?B = "[''orderId'' \<mapsto> JStr ''ORD-2'', ''status'' \<mapsto> JStr ''pending'']"
  let ?W = "fresh_world\<lparr>disk := (disk fresh_world)(''data/orders.json'' := Holds [?A, ?B])\<rparr>"
  have rd: "fst (readOrders ?W) = Inr [?A, ?B]"
    by (simp add: readOrders_eq)
  have wf: "write_faults ?W ''data/orders.json'' = None"
    by (simp add: fresh_world_def)
  from put_order_not_found_or_updated [OF rd, where orderId = "''ORD-9''" and body = "[''status'' \<mapsto> JStr ''done'']"]
  have a: "fst (put_order ''ORD-9'' [''status'' \<mapsto> JStr ''done''] ?W)
             = (404, Obj [''error'' \<mapsto> JStr ''Order not found''])"
    by simp
  from put_order_not_found_or_updated
         [OF rd, where orderId = "''ORD-2''" and i = 1 and body = "[''status'' \<mapsto> JStr ''done'']"] wf
  have b: "fst (put_order ''ORD-2'' [''status'' \<mapsto> JStr ''done''] ?W)
     = (200, Obj [''orderId'' \<mapsto> JStr ''ORD-2'', ''status'' \<mapsto> JStr ''done''])"
    by simp
  from rd a b show ?thesis by simp
qed

subsection \<open>Create order\<close>

lemma post_orders_ok:
  assumes "fst (readOrders w) = Inr orders" "write_faults w ''data/orders.json'' = None"
  shows "post_orders now isoString body w =
           ((200, Obj (stamp now isoString body)),
            emit (WriteFile ''data/orders.json'')
              (emit (ReadFile ''data/orders.json'') w
                 \<lparr>disk := (disk w)(''data/orders.json'' :=
                            Holds (orders @ [stamp now isoString body]))\<rparr>))"
proof -
  have rd: "readOrders w = (Inr orders, emit (ReadFile ''data/orders.json'') w)"
    using assms(1) readOrders_split [of w] by simp
  have wr: "write_faults (emit (ReadFile ''data/orders.json'') w) ''data/orders.json'' = None"
    using assms(2) by (simp add: emit_fields)
  show ?thesis
    by (simp add: post_orders_def rd Let_def writeOrders_def writeFile_json_ok [OF wr]
          res_json_def emit_fields)
qed

lemma stamp_ignores_client_stamps:
  "stamp now isoString (body(''orderId'' := a, ''orderDate'' := b, ''status'' := c))
     = stamp now isoString body"
  by (rule ext) (simp add: stamp_def)

text \<open>
  C10. Whatever the request body carries under \<open>orderId\<close>, \<open>orderDate\<close> and \<open>status\<close>
  (a value or nothing), the create handler behaves as for the body without them: the record
  it builds has the server's \<open>ORD-\<close> id, the server's date and status \<open>pending\<close>, keeps
  every other field of the body, and is the record returned and appended to the persisted
  list when the store is readable and the write is accepted.
\<close>

theorem post_orders_discards_client_stamps:
  "post_orders now isoString (body(''orderId'' := a, ''orderDate'' := b, ''status'' := c)) w
     = post_orders now isoString body w
   \<and> stamp now isoString body ''orderId'' = Some (JStr (''ORD-'' @ decimal now))
   \<and> stamp now isoString body ''orderDate'' = Some (JStr isoString)
   \<and> stamp now isoString body ''status'' = Some (JStr ''pending'')
   \<and> (k \<noteq> ''orderId'' \<and> k \<noteq> ''orderDate'' \<and> k \<noteq> ''status''
        \<longrightarrow> stamp now isoString body k = body k)
   \<and> (fst (readOrders w) = Inr orders \<and> write_faults w ''data/orders.json'' = None \<longrightarrow>
         fst (post_orders now isoString body w) = (200, Obj (stamp now isoString body))
       \<and> disk (snd (post_orders now isoString body w))
           = (disk w)(''data/orders.json'' := Holds (orders @ [stamp now isoString body])))"
proof (intro conjI impI)
  show "post_orders now isoString (body(''orderId'' := a, ''orderDate'' := b, ''status'' := c)) w
     = post_orders now isoString body w"
    unfolding post_orders_def stamp_ignores_client_stamps by (rule refl)
  show "stamp now isoString body ''orderId'' = Some (JStr (''ORD-'' @ decimal now))"
    by (simp add: stamp_def)
  show "stamp now isoString body ''orderDate'' = Some (JStr isoString)"
    by (simp add: stamp_def)
  show "stamp now isoString body ''status'' = Some (JStr ''pending'')"
    by (simp add: stamp_def)
  show "stamp now isoString body k = body k"
    if "k \<noteq> ''orderId'' \<and> k \<noteq> ''orderDate'' \<and> k \<noteq> ''status''"
    using that by (simp add: stamp_def)
  show "fst (post_orders now isoString body w) = (200, Obj (stamp now isoString body))"
    if "fst (readOrders w) = Inr orders \<and> write_faults w ''data/orders.json'' = None"
    using that by (simp add: post_orders_ok)
  show "disk (snd (post_orders now isoString body w))
           = (disk w)(''data/orders.json'' := Holds (orders @ [stamp now isoString body]))"
    if "fst (readOrders w) = Inr orders \<and> write_faults w ''data/orders.json'' = None"
    using that by (simp add: post_orders_ok emit_fields)
qed

lemma decimal_1700000000000: "decimal 1700000000000 = ''1700000000000''"
  by (simp add: decimal_small decimal_large decimal_digit_def)

theorem post_orders_discards_client_stamps_witness:
  "fst (readOrders fresh_world) = Inr []
   \<and> write_faults fresh_world ''data/orders.json'' = None
   \<and> fst (post_orders 1700000000000 ''2023-11-14T22:13:20.000Z''
            [''name'' \<mapsto> JStr ''Asha'', ''orderId'' \<mapsto> JStr ''mine'', ''status'' \<mapsto> JStr ''completed'']
            fresh_world)
       = (200, Obj [''name'' \<mapsto> JStr ''Asha'',
                    ''orderId'' \<mapsto> JStr ''ORD-1700000000000'',
                    ''status'' \<mapsto> JStr ''pending'',
                    ''orderDate'' \<mapsto> JStr ''2023-11-14T22:13:20.000Z''])"
proof -
  have rd: "fst (readOrders fresh_world) = Inr []"
    by (simp add: readOrders_eq fresh_world_def)
  have wf: "write_faults fresh_world ''data/orders.json'' = None"
    by (simp add: fresh_world_def)
  have eq: "stamp 1700000000000 ''2023-11-14T22:13:20.000Z''
              [''name'' \<mapsto> JStr ''Asha'', ''orderId'' \<mapsto> JStr ''mine'', ''status'' \<mapsto> JStr ''completed'']
          = [''name'' \<mapsto> JStr ''Asha'',
                    ''orderId'' \<mapsto> JStr ''ORD-1700000000000'',
                    ''status'' \<mapsto> JStr ''pending'',
                    ''orderDate'' \<mapsto> JStr ''2023-11-14T22:13:20.000Z'']"
    by (rule ext) (simp add: stamp_def decimal_1700000000000)
  from post_orders_discards_client_stamps
         [where w = fresh_world and orders = "[]" and now = 1700000000000
            and isoString = "''2023-11-14T22:13:20.000Z''"
            and body = "[''name'' \<mapsto> JStr ''Asha'', ''orderId'' \<mapsto> JStr ''mine'', ''status'' \<mapsto> JStr ''completed'']"]
       rd wf
  show ?thesis by (simp add: eq)
qed

subsection \<open>Upload\<close>

text \<open>
  C4. An upload request with no files, be \<open>req.files\<close> undefined or the empty array, is
  answered 400 \<open>No files uploaded\<close> and leaves the world as it was: the metadata list is
  not read, not written, not changed.
\<close>

theorem post_upload_no_files:
  "post_upload None w = ((400, Obj [''error'' \<mapsto> JStr ''No files uploaded'']), w)
   \<and> post_upload (Some []) w = ((400, Obj [''error'' \<mapsto> JStr ''No files uploaded'']), w)"
  by (simp add: post_upload_def res_status_json_def error_body_def)

theorem post_upload_no_files_witness:
  "post_upload (Some [])
      (fresh_world\<lparr>disk := (disk fresh_world)(''data/files.json'' :=
          Holds [[''name'' \<mapsto> JStr ''a.pdf'']])\<rparr>)
    = ((400, Obj [''error'' \<mapsto> JStr ''No files uploaded'']),
       fresh_world\<lparr>disk := (disk fresh_world)(''data/files.json'' :=
          Holds [[''name'' \<mapsto> JStr ''a.pdf'']])\<rparr>)"
  using post_upload_no_files
          [of "fresh_world\<lparr>disk := (disk fresh_world)(''data/files.json'' :=
                 Holds [[''name'' \<mapsto> JStr ''a.pdf'']])\<rparr>"]
  by simp

subsection \<open>Runs of create-order requests\<close>

lemma readOrders_after_write:
  "fst (readOrders (emit e (w\<lparr>disk := (d)(''data/orders.json'' := Holds xs)\<rparr>))) = Inr xs"
  by (simp add: readOrders_eq emit_fields)

lemma create_orders_ok:
  assumes "fst (readOrders w) = Inr orders" "write_faults w ''data/orders.json'' = None"
  shows "fst (create_orders reqs w)
           = map (\<lambda>(now, isoString, body). (200, Obj (stamp now isoString body))) reqs
       \<and> fst (readOrders (snd (create_orders reqs w)))
           = Inr (orders @ map (\<lambda>(now, isoString, body). stamp now isoString body) reqs)"
  using assms
proof (induction reqs arbitrary: w orders)
  case Nil
  then show ?case by simp
next
  case (Cons req reqs)
  obtain now isoString body where req: "req = (now, isoString, body)"
    by (cases req) auto
  define w1 where "w1 = snd (post_orders now isoString body w)"
  have step: "post_orders now isoString body w = ((200, Obj (stamp now isoString body)), w1)"
    unfolding w1_def using post_orders_ok [OF Cons.prems] by simp
  have rd1: "fst (readOrders w1) = Inr (orders @ [stamp now isoString body])"
    unfolding w1_def by (simp add: post_orders_ok [OF Cons.prems] readOrders_eq emit_fields)
  have wf1: "write_faults w1 ''data/orders.json'' = None"
    unfolding w1_def using Cons.prems(2) by (simp add: post_orders_ok [OF Cons.prems] emit_fields)
  from Cons.IH [OF rd1 wf1] show ?case
    by (simp add: req step case_prod_beta)
qed

lemma orderId_stamp: "stamp now isoString body ''orderId'' = Some (JStr (''ORD-'' @ decimal now))"
  by (simp add: stamp_def)

lemma distinct_stamped_orderIds:
  "distinct (map (\<lambda>order. order ''orderId'') (map (\<lambda>(now, isoString, body). stamp now isoString body) reqs))
     \<longleftrightarrow> distinct (map fst reqs)"
proof -
  have "map (\<lambda>order. order ''orderId'') (map (\<lambda>(now, isoString, body). stamp now isoString body) reqs)
          = map (\<lambda>n. Some (JStr (''ORD-'' @ decimal n))) (map fst reqs)"
    by (induction reqs) (auto simp: orderId_stamp)
  moreover have "inj (\<lambda>n. Some (JStr (''ORD-'' @ decimal n)))"
    by (rule injI) (simp add: decimal_inj)
  ultimately show ?thesis
    by (simp add: distinct_map inj_on_subset [OF _ subset_UNIV] del: map_map)
qed

text \<open>
  C1 (amended). Take any run of create-order requests against a readable store whose
  writes are accepted. Every request is answered 200 with its stamped record, the records
  are appended to the persisted list in the order of the requests, and each has status
  \<open>pending\<close> and the \<open>orderId\<close> \<open>ORD-\<close> followed by the millisecond clock reading of its
  request. The ids in the store are pairwise different after the run provided they were so
  before, the clock readings of the requests are pairwise different, and no record already
  present carries the id of one of the readings. Nothing in the handler makes an id unique
  beyond that.
\<close>

theorem create_orders_pending_and_ids:
  assumes "fst (readOrders w) = Inr orders" "write_faults w ''data/orders.json'' = None"
  shows "fst (create_orders reqs w)
           = map (\<lambda>(now, isoString, body). (200, Obj (stamp now isoString body))) reqs
       \<and> fst (readOrders (snd (create_orders reqs w)))
           = Inr (orders @ map (\<lambda>(now, isoString, body). stamp now isoString body) reqs)
       \<and> (\<forall>(now, isoString, body) \<in> set reqs.
              stamp now isoString body ''status'' = Some (JStr ''pending'')
            \<and> stamp now isoString body ''orderId'' = Some (JStr (''ORD-'' @ decimal now)))
       \<and> (distinct (map (\<lambda>order. order ''orderId'') orders) \<and> distinct (map fst reqs)
            \<and> (\<forall>order \<in> set orders. \<forall>(now, isoString, body) \<in> set reqs.
                   order ''orderId'' \<noteq> Some (JStr (''ORD-'' @ decimal now)))
           \<longrightarrow> distinct (map (\<lambda>order. order ''orderId'')
                  (orders @ map (\<lambda>(now, isoString, body). stamp now isoString body) reqs)))"
proof (intro conjI impI)
  show "fst (create_orders reqs w)
           = map (\<lambda>(now, isoString, body). (200, Obj (stamp now isoString body))) reqs"
    using create_orders_ok [OF assms] by simp
  show "fst (readOrders (snd (create_orders reqs w)))
           = Inr (orders @ map (\<lambda>(now, isoString, body). stamp now isoString body) reqs)"
    using create_orders_ok [OF assms] by simp
  show "\<forall>(now, isoString, body) \<in> set reqs.
              stamp now isoString body ''status'' = Some (JStr ''pending'')
            \<and> stamp now isoString body ''orderId'' = Some (JStr (''ORD-'' @ decimal now))"
    by (auto simp: stamp_def)
  assume h: "distinct (map (\<lambda>order. order ''orderId'') orders) \<and> distinct (map fst reqs)
            \<and> (\<forall>order \<in> set orders. \<forall>(now, isoString, body) \<in> set reqs.
                   order ''orderId'' \<noteq> Some (JStr (''ORD-'' @ decimal now)))"
  have new: "distinct (map (\<lambda>order. order ''orderId'')
               (map (\<lambda>(now, isoString, body). stamp now isoString body) reqs))"
    using h by (simp only: distinct_stamped_orderIds)
  have disj: "(\<lambda>order. order ''orderId'') ` set orders
               \<inter> (\<lambda>order. order ''orderId'') ` set (map (\<lambda>(now, isoString, body). stamp now isoString body) reqs) = {}"
    using h by (fastforce simp: orderId_stamp)
  show "distinct (map (\<lambda>order. order ''orderId'')
                  (orders @ map (\<lambda>(now, isoString, body). stamp now isoString body) reqs))"
    using h new disj by (simp del: map_map)
qed

lemma decimal_1700000000001: "decimal 1700000000001 = ''1700000000001''"
  by (simp add: decimal_small decimal_large decimal_digit_def)

lemma fresh_world_orders:
  "fst (readOrders fresh_world) = Inr []" "write_faults fresh_world ''data/orders.json'' = None"
  by (simp_all add: readOrders_eq fresh_world_def)

theorem create_orders_pending_and_ids_witness:
  "fst (readOrders fresh_world) = Inr []
   \<and> write_faults fresh_world ''data/orders.json'' = None
   \<and> fst (create_orders
        [(1700000000000, ''2023-11-14T22:13:20.000Z'', [''name'' \<mapsto> JStr ''Asha'']),
         (1700000000001, ''2023-11-14T22:13:20.001Z'', [''name'' \<mapsto> JStr ''Ravi''])]
        fresh_world)
      = [(200, Obj [''name'' \<mapsto> JStr ''Asha'', ''orderId'' \<mapsto> JStr ''ORD-1700000000000'',
                    ''orderDate'' \<mapsto> JStr ''2023-11-14T22:13:20.000Z'',
                    ''status'' \<mapsto> JStr ''pending'']),
         (200, Obj [''name'' \<mapsto> JStr ''Ravi'', ''orderId'' \<mapsto> JStr ''ORD-1700000000001'',
                    ''orderDate'' \<mapsto> JStr ''2023-11-14T22:13:20.001Z'',
                    ''status'' \<mapsto> JStr ''pending''])]
   \<and> distinct (map (\<lambda>order. order ''orderId'')
        [[''name'' \<mapsto> JStr ''Asha'', ''orderId'' \<mapsto> JStr ''ORD-1700000000000'',
          ''orderDate'' \<mapsto> JStr ''2023-11-14T22:13:20.000Z'', ''status'' \<mapsto> JStr ''pending''],
         [''name'' \<mapsto> JStr ''Ravi'', ''orderId'' \<mapsto> JStr ''ORD-1700000000001'',
          ''orderDate'' \<mapsto> JStr ''2023-11-14T22:13:20.001Z'', ''status'' \<mapsto> JStr ''pending'']])"
  using create_orders_pending_and_ids
          [OF fresh_world_orders,
           of "[(1700000000000, ''2023-11-14T22:13:20.000Z'', [''name'' \<mapsto> JStr ''Asha'']),
                (1700000000001, ''2023-11-14T22:13:20.001Z'', [''name'' \<mapsto> JStr ''Ravi''])]"]
        fresh_world_orders
  by (simp add: stamp_def decimal_1700000000000 decimal_1700000000001)

text \<open>
  Two creates within one millisecond: both are answered 200, both records are in the
  store, and the second carries the \<open>orderId\<close> of the first.
\<close>

theorem create_orders_same_millisecond_counterexample:
  "fst (create_orders
        [(1700000000000, ''2023-11-14T22:13:20.000Z'', [''name'' \<mapsto> JStr ''Asha'']),
         (1700000000000, ''2023-11-14T22:13:20.000Z'', [''name'' \<mapsto> JStr ''Ravi''])]
        fresh_world)
      = [(200, Obj [''name'' \<mapsto> JStr ''Asha'', ''orderId'' \<mapsto> JStr ''ORD-1700000000000'',
                    ''orderDate'' \<mapsto> JStr ''2023-11-14T22:13:20.000Z'',
                    ''status'' \<mapsto> JStr ''pending'']),
         (200, Obj [''name'' \<mapsto> JStr ''Ravi'', ''orderId'' \<mapsto> JStr ''ORD-1700000000000'',
                    ''orderDate'' \<mapsto> JStr ''2023-11-14T22:13:20.000Z'',
                    ''status'' \<mapsto> JStr ''pending''])]
   \<and> fst (readOrders (snd (create_orders
        [(1700000000000, ''2023-11-14T22:13:20.000Z'', [''name'' \<mapsto> JStr ''Asha'']),
         (1700000000000, ''2023-11-14T22:13:20.000Z'', [''name'' \<mapsto> JStr ''Ravi''])]
        fresh_world)))
      = Inr [[''name'' \<mapsto> JStr ''Asha'', ''orderId'' \<mapsto> JStr ''ORD-1700000000000'',
              ''orderDate'' \<mapsto> JStr ''2023-11-14T22:13:20.000Z'',
              ''status'' \<mapsto> JStr ''pending''],
             [''name'' \<mapsto> JStr ''Ravi'', ''orderId'' \<mapsto> JStr ''ORD-1700000000000'',
              ''orderDate'' \<mapsto> JStr ''2023-11-14T22:13:20.000Z'',
              ''status'' \<mapsto> JStr ''pending'']]
   \<and> [''name'' \<mapsto> JStr ''Ravi'', ''orderId'' \<mapsto> JStr ''ORD-1700000000000'',
        ''orderDate'' \<mapsto> JStr ''2023-11-14T22:13:20.000Z'',
        ''status'' \<mapsto> JStr ''pending''] ''orderId''
     = [''name'' \<mapsto> JStr ''Asha'', ''orderId'' \<mapsto> JStr ''ORD-1700000000000'',
        ''orderDate'' \<mapsto> JStr ''2023-11-14T22:13:20.000Z'',
        ''status'' \<mapsto> JStr ''pending''] ''orderId''"
  using create_orders_ok
          [OF fresh_world_orders,
           of "[(1700000000000, ''2023-11-14T22:13:20.000Z'', [''name'' \<mapsto> JStr ''Asha'']),
                (1700000000000, ''2023-11-14T22:13:20.000Z'', [''name'' \<mapsto> JStr ''Ravi''])]"]
  by (simp add: stamp_def decimal_1700000000000)

subsection \<open>Failures of the stores\<close>

lemma readOrders_fails_iff:
  "fst (readOrders w) = Inl e \<longleftrightarrow>
     (\<exists>c. disk w ''data/orders.json'' = Failing c \<and> c \<noteq> ''ENOENT'' \<and> e = Fs_error c)
     \<or> (disk w ''data/orders.json'' = Garbage \<and> e = Syntax_error)"
  by (auto simp: readOrders_eq split: stored.splits)

lemma readFiles_fails_iff:
  "fst (readFiles w) = Inl e \<longleftrightarrow>
     (\<exists>c. disk w ''data/files.json'' = Failing c \<and> c \<noteq> ''ENOENT'' \<and> e = Fs_error c)
     \<or> (disk w ''data/files.json'' = Garbage \<and> e = Syntax_error)"
  by (auto simp: readFiles_eq split: stored.splits)

lemma readOrders_Inl:
  "fst (readOrders w) = Inl e \<Longrightarrow> readOrders w = (Inl e, emit (ReadFile ''data/orders.json'') w)"
  using readOrders_split [of w] by simp

lemma readOrders_Inr:
  "fst (readOrders w) = Inr xs \<Longrightarrow> readOrders w = (Inr xs, emit (ReadFile ''data/orders.json'') w)"
  using readOrders_split [of w] by simp

lemma readFiles_Inl:
  "fst (readFiles w) = Inl e \<Longrightarrow> readFiles w = (Inl e, emit (ReadFile ''data/files.json'') w)"
  using readFiles_split [of w] by simp

lemma readFiles_Inr:
  "fst (readFiles w) = Inr xs \<Longrightarrow> readFiles w = (Inr xs, emit (ReadFile ''data/files.json'') w)"
  using readFiles_split [of w] by simp

lemma orders_read_failure_500:
  assumes "fst (readOrders w) = Inl e"
  shows "get_orders w =
           ((500, Obj [''error'' \<mapsto> JStr ''Failed to read orders'']),
            emit (ConsoleError ''Error reading orders:'') (emit (ReadFile ''data/orders.json'') w))"
    and "post_orders now isoString body w =
           ((500, Obj [''error'' \<mapsto> JStr ''Failed to create order'']),
            emit (ConsoleError ''Error creating order:'') (emit (ReadFile ''data/orders.json'') w))"
    and "put_order orderId body w =
           ((500, Obj [''error'' \<mapsto> JStr ''Failed to update order'']),
            emit (ConsoleError ''Error updating order:'') (emit (ReadFile ''data/orders.json'') w))"
    and "get_order orderId w =
           ((500, Obj [''error'' \<mapsto> JStr ''Failed to find order'']),
            emit (ConsoleError ''Error finding order:'') (emit (ReadFile ''data/orders.json'') w))"
  by (simp_all add: get_orders_def post_orders_def put_order_def get_order_def
        readOrders_Inl [OF assms] res_status_json_def error_body_def)

lemma files_read_failure_500:
  assumes "fst (readFiles w) = Inl e"
  shows "get_files w =
           ((500, Obj [''error'' \<mapsto> JStr ''Failed to read files'']),
            emit (ConsoleError ''Error reading files:'') (emit (ReadFile ''data/files.json'') w))"
    and "post_upload (Some (f # fs)) w =
           ((500, Obj [''error'' \<mapsto> JStr ''Failed to upload files'']),
            emit (ConsoleError ''Error uploading files:'') (emit (ReadFile ''data/files.json'') w))"
    and "delete_files w =
           ((500, Obj [''error'' \<mapsto> JStr ''Failed to delete files'']),
            emit (ConsoleError ''Error deleting files:'') (emit (ReadFile ''data/files.json'') w))"
  by (simp_all add: get_files_def post_upload_def delete_files_def
        readFiles_Inl [OF assms] res_status_json_def error_body_def)

lemma missing_store_is_empty:
  "disk w ''data/orders.json'' = Missing \<Longrightarrow>
     get_orders w = ((200, Arr []), emit (ReadFile ''data/orders.json'') w)"
  "disk w ''data/files.json'' = Missing \<Longrightarrow>
     get_files w = ((200, Arr []), emit (ReadFile ''data/files.json'') w)"
  by (simp_all add: get_orders_def get_files_def readOrders_eq readFiles_eq res_json_def)

lemma orders_write_failure_500:
  assumes "write_faults w ''data/orders.json'' = Some c"
  shows "fst (readOrders w) = Inr orders \<Longrightarrow>
         post_orders now isoString body w =
           ((500, Obj [''error'' \<mapsto> JStr ''Failed to create order'']),
            emit (ConsoleError ''Error creating order:'')
              (emit (WriteFile ''data/orders.json'') (emit (ReadFile ''data/orders.json'') w)))"
    and "delete_orders w =
           ((500, Obj [''error'' \<mapsto> JStr ''Failed to delete orders'']),
            emit (ConsoleError ''Error deleting orders:'') (emit (WriteFile ''data/orders.json'') w))"
proof -
  have wr: "write_faults (emit (ReadFile ''data/orders.json'') w) ''data/orders.json'' = Some c"
    using assms by (simp add: emit_fields)
  show "fst (readOrders w) = Inr orders \<Longrightarrow>
         post_orders now isoString body w =
           ((500, Obj [''error'' \<mapsto> JStr ''Failed to create order'']),
            emit (ConsoleError ''Error creating order:'')
              (emit (WriteFile ''data/orders.json'') (emit (ReadFile ''data/orders.json'') w)))"
    by (simp add: post_orders_def readOrders_Inr Let_def writeOrders_def
          writeFile_json_fault [OF wr] res_status_json_def error_body_def)
  show "delete_orders w =
           ((500, Obj [''error'' \<mapsto> JStr ''Failed to delete orders'']),
            emit (ConsoleError ''Error deleting orders:'') (emit (WriteFile ''data/orders.json'') w))"
    by (simp add: delete_orders_def writeOrders_def writeFile_json_fault [OF assms]
          res_status_json_def error_body_def)
qed

lemma put_order_write_failure_500:
  assumes "fst (readOrders w) = Inr orders" "write_faults w ''data/orders.json'' = Some c"
    and "order \<in> set orders" "order ''orderId'' = Some (JStr orderId)"
  shows "put_order orderId body w =
           ((500, Obj [''error'' \<mapsto> JStr ''Failed to update order'']),
            emit (ConsoleError ''Error updating order:'')
              (emit (WriteFile ''data/orders.json'') (emit (ReadFile ''data/orders.json'') w)))"
proof -
  have wr: "write_faults (emit (ReadFile ''data/orders.json'') w) ''data/orders.json'' = Some c"
    using assms(2) by (simp add: emit_fields)
  have "findIndex (\<lambda>order. order ''orderId'' = Some (JStr orderId)) orders \<noteq> - 1"
    using assms(3,4) by (auto simp: findIndex_none_iff)
  then show ?thesis
    by (simp add: put_order_def readOrders_Inr [OF assms(1)] Let_def writeOrders_def
          writeFile_json_fault [OF wr] res_status_json_def error_body_def)
qed

lemma unlink_keeps:
  "disk (snd (unlink arg w)) = disk w"
  "write_faults (snd (unlink arg w)) = write_faults w"
  "unlink_faults (snd (unlink arg w)) = unlink_faults w"
  by (simp_all add: unlink_def emit_fields split: option.splits json.splits)

lemma delete_physical_file_keeps:
  "disk (delete_physical_file f w) = disk w"
  "write_faults (delete_physical_file f w) = write_faults w"
  "unlink_faults (delete_physical_file f w) = unlink_faults w"
proof -
  obtain r w1 where u: "unlink (f ''serverPath'') w = (r, w1)"
    by (cases "unlink (f ''serverPath'') w") auto
  have "disk w1 = disk w" "write_faults w1 = write_faults w" "unlink_faults w1 = unlink_faults w"
    using unlink_keeps [of "f ''serverPath''" w] by (simp_all add: u)
  then show "disk (delete_physical_file f w) = disk w"
    "write_faults (delete_physical_file f w) = write_faults w"
    "unlink_faults (delete_physical_file f w) = unlink_faults w"
    by (cases r; simp add: delete_physical_file_def u emit_fields)+
qed

lemma delete_physical_files_keeps:
  "disk (delete_physical_files fs w) = disk w
   \<and> write_faults (delete_physical_files fs w) = write_faults w
   \<and> unlink_faults (delete_physical_files fs w) = unlink_faults w"
  by (induction fs arbitrary: w) (simp_all add: delete_physical_file_keeps)

lemma files_write_failure_500:
  assumes "fst (readFiles w) = Inr stored_files" "write_faults w ''data/files.json'' = Some c"
  shows "post_upload (Some (f # fs)) w =
           ((500, Obj [''error'' \<mapsto> JStr ''Failed to upload files'']),
            emit (ConsoleError ''Error uploading files:'')
              (emit (WriteFile ''data/files.json'') (emit (ReadFile ''data/files.json'') w)))"
    and "fst (delete_files w) = (500, Obj [''error'' \<mapsto> JStr ''Failed to delete files''])"
    and "disk (snd (delete_files w)) = disk w"
    and "events (snd (delete_files w))
           = events (delete_physical_files stored_files (emit (ReadFile ''data/files.json'') w))
             @ [WriteFile ''data/files.json'', ConsoleError ''Error deleting files:'']"
proof -
  have wr: "write_faults (emit (ReadFile ''data/files.json'') w) ''data/files.json'' = Some c"
    using assms(2) by (simp add: emit_fields)
  show "post_upload (Some (f # fs)) w =
           ((500, Obj [''error'' \<mapsto> JStr ''Failed to upload files'']),
            emit (ConsoleError ''Error uploading files:'')
              (emit (WriteFile ''data/files.json'') (emit (ReadFile ''data/files.json'') w)))"
    by (simp add: post_upload_def readFiles_Inr [OF assms(1)] Let_def writeFiles_def
          writeFile_json_fault [OF wr] res_status_json_def error_body_def)
  have wr2: "write_faults (delete_physical_files stored_files (emit (ReadFile ''data/files.json'') w))
               ''data/files.json'' = Some c"
    using wr by (simp add: delete_physical_files_keeps)
  show "fst (delete_files w) = (500, Obj [''error'' \<mapsto> JStr ''Failed to delete files''])"
    by (simp add: delete_files_def readFiles_Inr [OF assms(1)] Let_def writeFiles_def
          writeFile_json_fault [OF wr2] res_status_json_def error_body_def)
  show "disk (snd (delete_files w)) = disk w"
    by (simp add: delete_files_def readFiles_Inr [OF assms(1)] Let_def writeFiles_def
          writeFile_json_fault [OF wr2] emit_fields delete_physical_files_keeps)
  show "events (snd (delete_files w))
           = events (delete_physical_files stored_files (emit (ReadFile ''data/files.json'') w))
             @ [WriteFile ''data/files.json'', ConsoleError ''Error deleting files:'']"
    by (simp add: delete_files_def readFiles_Inr [OF assms(1)] Let_def writeFiles_def
          writeFile_json_fault [OF wr2] emit_fields)
qed

text \<open>
  C6. A store file that does not exist reads as the empty list, and the operation goes on
  with it (the handlers see the store through \<open>readOrders\<close> and \<open>readFiles\<close> only). A read that fails otherwise (another error code, or text that is not JSON) is
  what \<open>readOrders\<close>/\<open>readFiles\<close> pass on, and every handler that reads the store then
  answers 500 with its fixed message; a rejected write of the store does the same for every
  handler that writes. In each case the trace shows the one read (and the one write): nothing
  is tried twice, and the store file keeps what it held. For delete-all with a rejected
  final write the trace is the one read, then what the loop over the blobs did, then the
  one write and the error line.
\<close>

theorem store_failures_become_500:
  "(disk w ''data/orders.json'' = Missing \<longrightarrow>
      get_orders w = ((200, Arr []), emit (ReadFile ''data/orders.json'') w))
   \<and> (disk w ''data/files.json'' = Missing \<longrightarrow>
      get_files w = ((200, Arr []), emit (ReadFile ''data/files.json'') w))
   \<and> (disk w ''data/orders.json'' = Missing \<longrightarrow> fst (readOrders w) = Inr [])
   \<and> (disk w ''data/files.json'' = Missing \<longrightarrow> fst (readFiles w) = Inr [])
   \<and> (fst (readOrders w) = Inl e \<longleftrightarrow>
        (\<exists>c. disk w ''data/orders.json'' = Failing c \<and> c \<noteq> ''ENOENT'' \<and> e = Fs_error c)
        \<or> (disk w ''data/orders.json'' = Garbage \<and> e = Syntax_error))
   \<and> (fst (readFiles w) = Inl e \<longleftrightarrow>
        (\<exists>c. disk w ''data/files.json'' = Failing c \<and> c \<noteq> ''ENOENT'' \<and> e = Fs_error c)
        \<or> (disk w ''data/files.json'' = Garbage \<and> e = Syntax_error))
   \<and> (fst (readOrders w) = Inl e \<longrightarrow>
        get_orders w =
          ((500, Obj [''error'' \<mapsto> JStr ''Failed to read orders'']),
           emit (ConsoleError ''Error reading orders:'') (emit (ReadFile ''data/orders.json'') w))
      \<and> post_orders now isoString body w =
          ((500, Obj [''error'' \<mapsto> JStr ''Failed to create order'']),
           emit (ConsoleError ''Error creating order:'') (emit (ReadFile ''data/orders.json'') w))
      \<and> put_order orderId body w =
          ((500, Obj [''error'' \<mapsto> JStr ''Failed to update order'']),
           emit (ConsoleError ''Error updating order:'') (emit (ReadFile ''data/orders.json'') w))
      \<and> get_order orderId w =
          ((500, Obj [''error'' \<mapsto> JStr ''Failed to find order'']),
           emit (ConsoleError ''Error finding order:'') (emit (ReadFile ''data/orders.json'') w)))
   \<and> (fst (readFiles w) = Inl e \<longrightarrow>
        get_files w =
          ((500, Obj [''error'' \<mapsto> JStr ''Failed to read files'']),
           emit (ConsoleError ''Error reading files:'') (emit (ReadFile ''data/files.json'') w))
      \<and> post_upload (Some (f # fs)) w =
          ((500, Obj [''error'' \<mapsto> JStr ''Failed to upload files'']),
           emit (ConsoleError ''Error uploading files:'') (emit (ReadFile ''data/files.json'') w))
      \<and> delete_files w =
          ((500, Obj [''error'' \<mapsto> JStr ''Failed to delete files'']),
           emit (ConsoleError ''Error deleting files:'') (emit (ReadFile ''data/files.json'') w)))
   \<and> (write_faults w ''data/orders.json'' = Some c \<longrightarrow>
        delete_orders w =
          ((500, Obj [''error'' \<mapsto> JStr ''Failed to delete orders'']),
           emit (ConsoleError ''Error deleting orders:'') (emit (WriteFile ''data/orders.json'') w)))
   \<and> (write_faults w ''data/orders.json'' = Some c \<and> fst (readOrders w) = Inr orders \<longrightarrow>
        post_orders now isoString body w =
          ((500, Obj [''error'' \<mapsto> JStr ''Failed to create order'']),
           emit (ConsoleError ''Error creating order:'')
             (emit (WriteFile ''data/orders.json'') (emit (ReadFile ''data/orders.json'') w))))
   \<and> (write_faults w ''data/orders.json'' = Some c \<and> fst (readOrders w) = Inr orders
        \<and> order \<in> set orders \<and> order ''orderId'' = Some (JStr orderId) \<longrightarrow>
        put_order orderId body w =
          ((500, Obj [''error'' \<mapsto> JStr ''Failed to update order'']),
           emit (ConsoleError ''Error updating order:'')
             (emit (WriteFile ''data/orders.json'') (emit (ReadFile ''data/orders.json'') w))))
   \<and> (write_faults w ''data/files.json'' = Some c \<and> fst (readFiles w) = Inr stored_files \<longrightarrow>
        post_upload (Some (f # fs)) w =
          ((500, Obj [''error'' \<mapsto> JStr ''Failed to upload files'']),
           emit (ConsoleError ''Error uploading files:'')
             (emit (WriteFile ''data/files.json'') (emit (ReadFile ''data/files.json'') w)))
      \<and> fst (delete_files w) = (500, Obj [''error'' \<mapsto> JStr ''Failed to delete files''])
      \<and> disk (snd (delete_files w)) = disk w
      \<and> events (snd (delete_files w))
          = events (delete_physical_files stored_files (emit (ReadFile ''data/files.json'') w))
            @ [WriteFile ''data/files.json'', ConsoleError ''Error deleting files:''])"
proof -
  have a: "disk w ''data/orders.json'' = Missing \<longrightarrow>
      get_orders w = ((200, Arr []), emit (ReadFile ''data/orders.json'') w)"
    by (simp add: missing_store_is_empty)
  have b: "disk w ''data/files.json'' = Missing \<longrightarrow>
      get_files w = ((200, Arr []), emit (ReadFile ''data/files.json'') w)"
    by (simp add: missing_store_is_empty)
  note c = readOrders_fails_iff [of w e] and d = readFiles_fails_iff [of w e]
  note e = orders_read_failure_500 [of w e] and f = files_read_failure_500 [of w e]
  note g = orders_write_failure_500 [of w c] and h = put_order_write_failure_500 [of w orders c order]
  note i = files_write_failure_500 [of w stored_files c]
  show ?thesis
    apply (intro conjI impI)
    subgoal using a by simp
    subgoal using b by simp
    subgoal by (simp add: readOrders_eq)
    subgoal by (simp add: readFiles_eq)
    subgoal by (rule c)
    subgoal by (rule d)
    subgoal by (rule e)
    subgoal by (rule e)
    subgoal by (rule e)
    subgoal by (rule e)
    subgoal by (rule f)
    subgoal by (rule f)
    subgoal by (rule f)
    subgoal by (rule g)
    subgoal by (rule g) simp_all
    subgoal by (rule h) simp_all
    subgoal by (rule i) simp_all
    subgoal by (rule i) simp_all
    subgoal by (rule i) simp_all
    subgoal by (rule i) simp_all
    done
qed

theorem store_failures_become_500_witness:
  "get_orders fresh_world = ((200, Arr []), emit (ReadFile ''data/orders.json'') fresh_world)
   \<and> fst (readOrders (fresh_world\<lparr>disk := (disk fresh_world)
            (''data/orders.json'' := Failing ''EACCES'')\<rparr>)) = Inl (Fs_error ''EACCES'')
   \<and> fst (get_orders (fresh_world\<lparr>disk := (disk fresh_world)
            (''data/orders.json'' := Failing ''EACCES'')\<rparr>))
       = (500, Obj [''error'' \<mapsto> JStr ''Failed to read orders''])
   \<and> events (snd (get_orders (fresh_world\<lparr>disk := (disk fresh_world)
            (''data/orders.json'' := Failing ''EACCES'')\<rparr>)))
       = [ReadFile ''data/orders.json'', ConsoleError ''Error reading orders:'']
   \<and> fst (readFiles (fresh_world\<lparr>disk := (disk fresh_world)
            (''data/files.json'' := Garbage)\<rparr>)) = Inl Syntax_error
   \<and> fst (delete_files (fresh_world\<lparr>disk := (disk fresh_world)
            (''data/files.json'' := Garbage)\<rparr>))
       = (500, Obj [''error'' \<mapsto> JStr ''Failed to delete files''])
   \<and> fst (post_orders 1700000000000 ''2023-11-14T22:13:20.000Z'' [''name'' \<mapsto> JStr ''Asha'']
            (fresh_world\<lparr>write_faults := [''data/orders.json'' \<mapsto> ''ENOSPC'']\<rparr>))
       = (500, Obj [''error'' \<mapsto> JStr ''Failed to create order''])
   \<and> events (snd (post_orders 1700000000000 ''2023-11-14T22:13:20.000Z'' [''name'' \<mapsto> JStr ''Asha'']
            (fresh_world\<lparr>write_faults := [''data/orders.json'' \<mapsto> ''ENOSPC'']\<rparr>)))
       = [ReadFile ''data/orders.json'', WriteFile ''data/orders.json'',
          ConsoleError ''Error creating order:'']
   \<and> fst (delete_files
            (three_files_world\<lparr>write_faults := [''data/files.json'' \<mapsto> ''ENOSPC'']\<rparr>))
       = (500, Obj [''error'' \<mapsto> JStr ''Failed to delete files''])
   \<and> events (snd (delete_files
            (three_files_world\<lparr>write_faults := [''data/files.json'' \<mapsto> ''ENOSPC'']\<rparr>)))
       = [ReadFile ''data/files.json'',
          Unlink ''uploads/a'',
          Unlink ''uploads/b'', ConsoleError ''Error deleting file:'',
          Unlink ''uploads/c'', ConsoleError ''Error deleting file:'',
          WriteFile ''data/files.json'', ConsoleError ''Error deleting files:'']"
proof -
  let ?W1 = "fresh_world\<lparr>disk := (disk fresh_world)(''data/orders.json'' := Failing ''EACCES'')\<rparr>"
  let ?W2 = "fresh_world\<lparr>disk := (disk fresh_world)(''data/files.json'' := Garbage)\<rparr>"
  let ?W3 = "fresh_world\<lparr>write_faults := [''data/orders.json'' \<mapsto> ''ENOSPC'']\<rparr>"
  let ?W4 = "three_files_world\<lparr>write_faults := [''data/files.json'' \<mapsto> ''ENOSPC'']\<rparr>"
  let ?rs = "[[''name'' \<mapsto> JStr ''a.pdf'', ''serverPath'' \<mapsto> JStr ''uploads/a''],
              [''name'' \<mapsto> JStr ''b.pdf'', ''serverPath'' \<mapsto> JStr ''uploads/b''],
              [''name'' \<mapsto> JStr ''c.pdf'', ''serverPath'' \<mapsto> JStr ''uploads/c'']]"
  have m: "disk fresh_world ''data/orders.json'' = Missing"
    by (simp add: fresh_world_def)
  have r1: "fst (readOrders ?W1) = Inl (Fs_error ''EACCES'')"
    by (simp add: readOrders_eq)
  have r2: "fst (readFiles ?W2) = Inl Syntax_error"
    by (simp add: readFiles_eq)
  have r3: "write_faults ?W3 ''data/orders.json'' = Some ''ENOSPC'' \<and> fst (readOrders ?W3) = Inr []"
    by (simp add: readOrders_eq fresh_world_def)
  have r4: "write_faults ?W4 ''data/files.json'' = Some ''ENOSPC'' \<and> fst (readFiles ?W4) = Inr ?rs"
    by (simp add: readFiles_eq three_files_world_def)
  have ev: "events fresh_world = []"
    by (simp add: fresh_world_def)
  note a = store_failures_become_500 [where w = fresh_world, THEN conjunct1, THEN mp, OF m]
  note b = store_failures_become_500
             [where w = ?W1 and e = "Fs_error ''EACCES''",
              THEN conjunct2, THEN conjunct2, THEN conjunct2, THEN conjunct2, THEN conjunct2,
              THEN conjunct2, THEN conjunct1, THEN mp, OF r1, THEN conjunct1]
  note c = store_failures_become_500
             [where w = ?W2 and e = Syntax_error,
              THEN conjunct2, THEN conjunct2, THEN conjunct2, THEN conjunct2, THEN conjunct2,
              THEN conjunct2, THEN conjunct2, THEN conjunct1, THEN mp, OF r2,
              THEN conjunct2, THEN conjunct2]
  note d = store_failures_become_500
             [where w = ?W3 and c = "''ENOSPC''" and orders = "[]" and now = 1700000000000
                and isoString = "''2023-11-14T22:13:20.000Z''"
                and body = "[''name'' \<mapsto> JStr ''Asha'']",
              THEN conjunct2, THEN conjunct2, THEN conjunct2, THEN conjunct2, THEN conjunct2,
              THEN conjunct2, THEN conjunct2, THEN conjunct2, THEN conjunct2, THEN conjunct1,
              THEN mp, OF r3]
  note files_part = store_failures_become_500
             [where w = ?W4 and c = "''ENOSPC''" and stored_files = ?rs,
              THEN conjunct2, THEN conjunct2, THEN conjunct2, THEN conjunct2, THEN conjunct2,
              THEN conjunct2, THEN conjunct2, THEN conjunct2, THEN conjunct2, THEN conjunct2,
              THEN conjunct2, THEN mp, OF r4]
  note g = files_part [THEN conjunct2, THEN conjunct1]
  note h0 = files_part [THEN conjunct2, THEN conjunct2, THEN conjunct2]
  have loop: "events (delete_physical_files ?rs (emit (ReadFile ''data/files.json'') ?W4))
       = [ReadFile ''data/files.json'',
          Unlink ''uploads/a'',
          Unlink ''uploads/b'', ConsoleError ''Error deleting file:'',
          Unlink ''uploads/c'', ConsoleError ''Error deleting file:'']"
    by (simp add: delete_physical_file_def unlink_def emit_def three_files_world_def)
  have h: "events (snd (delete_files ?W4))
       = [ReadFile ''data/files.json'',
          Unlink ''uploads/a'',
          Unlink ''uploads/b'', ConsoleError ''Error deleting file:'',
          Unlink ''uploads/c'', ConsoleError ''Error deleting file:'',
          WriteFile ''data/files.json'', ConsoleError ''Error deleting files:'']"
    unfolding h0 loop by simp
  show ?thesis
    unfolding a b c d g h
    using r1 r2 by (simp add: emit_fields ev)
qed

subsection \<open>Delete all files\<close>

lemma console_errors_append: "console_errors (xs @ ys) = console_errors xs @ console_errors ys"
  by (induction xs rule: console_errors.induct) simp_all

lemma unlinks_append: "unlinks (xs @ ys) = unlinks xs @ unlinks ys"
  by (induction xs rule: unlinks.induct) simp_all

lemma blob_paths_Cons: "blob_paths (r # rs) = blob_paths [r] @ blob_paths rs"
  by (simp split: option.splits json.splits)

lemma serverPath_cases:
  obtains (skip) "\<not> truthy (r ''serverPath'')" "blob_paths [r] = []"
    | (str) p where "r ''serverPath'' = Some (JStr p)" "p \<noteq> []" "blob_paths [r] = [p]"
    | (other) "truthy (r ''serverPath'')" "\<forall>p. r ''serverPath'' \<noteq> Some (JStr p)" "blob_paths [r] = []"
proof (cases "r ''serverPath''")
  case None
  then show ?thesis using skip by simp
next
  case (Some v)
  then show ?thesis
    using skip str other by (cases v) auto
qed

lemma delete_physical_file_skip:
  "\<not> truthy (r ''serverPath'') \<Longrightarrow> delete_physical_file r w = w"
  by (simp add: delete_physical_file_def)

lemma delete_physical_file_other:
  assumes "truthy (r ''serverPath'')" "\<forall>p. r ''serverPath'' \<noteq> Some (JStr p)"
  shows "delete_physical_file r w = emit (ConsoleError ''Error deleting file:'') w"
proof (cases "r ''serverPath''")
  case None
  then show ?thesis using assms by simp
next
  case (Some v)
  then show ?thesis
    using assms by (cases v) (simp_all add: delete_physical_file_def unlink_def)
qed

lemma delete_physical_file_str:
  assumes "r ''serverPath'' = Some (JStr p)" "p \<noteq> []"
  shows "delete_physical_file r w =
           (if unlink_faults w p = None \<and> p \<in> uploads w
            then emit (Unlink p) (w\<lparr>uploads := uploads w - {p}\<rparr>)
            else emit (ConsoleError ''Error deleting file:'') (emit (Unlink p) w))"
  using assms by (simp add: delete_physical_file_def unlink_def split: option.splits)

lemma card_removed_one: "p \<in> U \<Longrightarrow> card (U - (U - {p})) = 1"
proof -
  assume "p \<in> U"
  then have "U - (U - {p}) = {p}" by blast
  then show ?thesis by simp
qed

lemma delete_physical_file_step:
  "uploads (delete_physical_file r w)
     = uploads w - {p \<in> set (blob_paths [r]). unlink_faults w p = None}
   \<and> unlinks (events (delete_physical_file r w)) = unlinks (events w) @ blob_paths [r]
   \<and> length (console_errors (events (delete_physical_file r w)))
       + card (uploads w - uploads (delete_physical_file r w))
       = length (console_errors (events w)) + (if truthy (r ''serverPath'') then 1 else 0)"
proof (cases r rule: serverPath_cases)
  case skip
  then show ?thesis
    by (simp add: delete_physical_file_skip)
next
  case (str p)
  have tr: "truthy (r ''serverPath'')" using str by simp
  show ?thesis
  proof (cases "unlink_faults w p = None \<and> p \<in> uploads w")
    case True
    have eq: "delete_physical_file r w = emit (Unlink p) (w\<lparr>uploads := uploads w - {p}\<rparr>)"
      by (simp only: delete_physical_file_str [where r = r and p = p and w = w, OF str(1) str(2)]
            if_P [OF True])
    have a: "{q \<in> set [p]. unlink_faults w q = None} = {p}"
      using True by auto
    show ?thesis
      unfolding eq str(3) a
      using True tr
      by (simp add: emit_fields console_errors_append unlinks_append card_removed_one)
  next
    case False
    have eq: "delete_physical_file r w
                 = emit (ConsoleError ''Error deleting file:'') (emit (Unlink p) w)"
      by (simp only: delete_physical_file_str [where r = r and p = p and w = w, OF str(1) str(2)]
            if_not_P [OF False])
    have a: "uploads w - {q \<in> set [p]. unlink_faults w q = None} = uploads w"
      using False by auto
    show ?thesis
      unfolding eq str(3) a
      using tr
      by (simp add: emit_fields console_errors_append unlinks_append)
  qed
next
  case other
  then show ?thesis
    by (simp add: delete_physical_file_other emit_fields console_errors_append unlinks_append)
qed

lemma card_removed_split:
  assumes "U1 = U0 - A1" "U2 = U1 - A2" "finite A1" "finite A2"
  shows "card (U0 - U2) = card (U0 - U1) + card (U1 - U2)"
proof -
  have "U0 - U2 = (U0 - U1) \<union> (U1 - U2)"
    using assms(1,2) by blast
  moreover have "(U0 - U1) \<inter> (U1 - U2) = {}"
    by blast
  moreover have "finite (U0 - U1)"
    using assms(1,3) by (auto intro: finite_subset [of _ A1])
  moreover have "finite (U1 - U2)"
    using assms(2,4) by (auto intro: finite_subset [of _ A2])
  ultimately show ?thesis
    by (simp add: card_Un_disjoint)
qed

lemma delete_physical_files_effects:
  "uploads (delete_physical_files rs w)
     = uploads w - {p \<in> set (blob_paths rs). unlink_faults w p = None}
   \<and> unlinks (events (delete_physical_files rs w)) = unlinks (events w) @ blob_paths rs
   \<and> length (console_errors (events (delete_physical_files rs w)))
       + card (uploads w - uploads (delete_physical_files rs w))
       = length (console_errors (events w))
         + length (filter (\<lambda>r. truthy (r ''serverPath'')) rs)"
proof (induction rs arbitrary: w)
  case Nil
  show ?case by simp
next
  case (Cons r rs)
  define w1 where "w1 = delete_physical_file r w"
  define A1 where "A1 = {p \<in> set (blob_paths [r]). unlink_faults w p = None}"
  define A2 where "A2 = {p \<in> set (blob_paths rs). unlink_faults w p = None}"
  have fin: "finite A1" "finite A2"
    by (simp_all add: A1_def A2_def)
  have faults: "unlink_faults w1 = unlink_faults w"
    by (simp add: w1_def delete_physical_file_keeps)
  have u1: "uploads w1 = uploads w - A1"
    and l1: "unlinks (events w1) = unlinks (events w) @ blob_paths [r]"
    and c1: "length (console_errors (events w1)) + card (uploads w - uploads w1)
               = length (console_errors (events w)) + (if truthy (r ''serverPath'') then 1 else 0)"
    using delete_physical_file_step [of r w] unfolding w1_def A1_def by blast+
  have u2: "uploads (delete_physical_files rs w1) = uploads w1 - A2"
    and l2: "unlinks (events (delete_physical_files rs w1)) = unlinks (events w1) @ blob_paths rs"
    and c2: "length (console_errors (events (delete_physical_files rs w1)))
               + card (uploads w1 - uploads (delete_physical_files rs w1))
               = length (console_errors (events w1))
                 + length (filter (\<lambda>r. truthy (r ''serverPath'')) rs)"
    using Cons.IH [of w1] unfolding faults A2_def by blast+
  have step: "delete_physical_files (r # rs) w = delete_physical_files rs w1"
    by (simp add: w1_def)
  have paths: "{p \<in> set (blob_paths (r # rs)). unlink_faults w p = None} = A1 \<union> A2"
    unfolding A1_def A2_def by (subst blob_paths_Cons) auto
  have a: "uploads (delete_physical_files (r # rs) w)
             = uploads w - {p \<in> set (blob_paths (r # rs)). unlink_faults w p = None}"
    unfolding step paths u2 u1 by blast
  have b: "unlinks (events (delete_physical_files (r # rs) w))
             = unlinks (events w) @ blob_paths (r # rs)"
    unfolding step l2 l1 by (subst (2) blob_paths_Cons) simp
  have "card (uploads w - uploads (delete_physical_files rs w1))
          = card (uploads w - uploads w1) + card (uploads w1 - uploads (delete_physical_files rs w1))"
    by (rule card_removed_split [OF u1 u2 fin])
  with c1 c2 have c: "length (console_errors (events (delete_physical_files (r # rs) w)))
       + card (uploads w - uploads (delete_physical_files (r # rs) w))
       = length (console_errors (events w))
         + length (filter (\<lambda>r. truthy (r ''serverPath'')) (r # rs))"
    unfolding step by (cases "truthy (r ''serverPath'')") simp_all
  from a b c show ?case by blast
qed

text \<open>
  C5. With the metadata list readable and the final write accepted, delete-all answers 200
  \<open>All files deleted\<close> and leaves the metadata store holding the empty list, whatever the
  blob deletions did. The loop hands the \<open>serverPath\<close> of every record to \<open>unlink\<close>, in
  order, a failure never stopping it; exactly the blobs whose unlink is not faulty are gone
  afterwards; and every record with a truthy \<open>serverPath\<close> either had its blob removed or
  left one line in the error log. The write of the empty list comes after the loop: the
  trace is the one read, then what the loop did, then the one write, and nothing after it.
\<close>

theorem delete_files_best_effort:
  assumes "fst (readFiles w) = Inr stored_files" "write_faults w ''data/files.json'' = None"
  shows "fst (delete_files w) = (200, Obj [''message'' \<mapsto> JStr ''All files deleted''])
       \<and> disk (snd (delete_files w)) = (disk w)(''data/files.json'' := Holds [])
       \<and> unlinks (events (snd (delete_files w))) = unlinks (events w) @ blob_paths stored_files
       \<and> uploads (snd (delete_files w))
           = uploads w - {p \<in> set (blob_paths stored_files). unlink_faults w p = None}
       \<and> length (console_errors (events (snd (delete_files w))))
           + card (uploads w - uploads (snd (delete_files w)))
           = length (console_errors (events w))
             + length (filter (\<lambda>r. truthy (r ''serverPath'')) stored_files)
       \<and> events (snd (delete_files w))
           = events (delete_physical_files stored_files (emit (ReadFile ''data/files.json'') w))
             @ [WriteFile ''data/files.json'']"
proof -
  define w1 where "w1 = emit (ReadFile ''data/files.json'') w"
  define w2 where "w2 = delete_physical_files stored_files w1"
  have rd: "readFiles w = (Inr stored_files, w1)"
    unfolding w1_def by (rule readFiles_Inr [OF assms(1)])
  have wf: "write_faults w2 ''data/files.json'' = None"
    using assms(2) by (simp add: w2_def w1_def delete_physical_files_keeps emit_fields)
  have res: "delete_files w =
               ((200, Obj [''message'' \<mapsto> JStr ''All files deleted'']),
                emit (WriteFile ''data/files.json'')
                  (w2\<lparr>disk := (disk w2)(''data/files.json'' := Holds [])\<rparr>))"
    by (simp add: delete_files_def rd Let_def w2_def [symmetric] writeFiles_def
          writeFile_json_ok [OF wf] res_json_def message_body_def)
  have w1_fields: "uploads w1 = uploads w" "unlink_faults w1 = unlink_faults w"
    "unlinks (events w1) = unlinks (events w)"
    "console_errors (events w1) = console_errors (events w)" "disk w1 = disk w"
    by (simp_all add: w1_def emit_fields unlinks_append console_errors_append)
  have eff: "uploads w2 = uploads w - {p \<in> set (blob_paths stored_files). unlink_faults w p = None}"
    "unlinks (events w2) = unlinks (events w) @ blob_paths stored_files"
    "length (console_errors (events w2)) + card (uploads w - uploads w2)
       = length (console_errors (events w))
         + length (filter (\<lambda>r. truthy (r ''serverPath'')) stored_files)"
    using delete_physical_files_effects [of stored_files w1]
    unfolding w2_def [symmetric] w1_fields by blast+
  have d2: "disk w2 = disk w"
    by (simp add: w2_def delete_physical_files_keeps w1_fields)
  have order: "events (snd (delete_files w))
           = events (delete_physical_files stored_files (emit (ReadFile ''data/files.json'') w))
             @ [WriteFile ''data/files.json'']"
    unfolding res by (simp add: emit_fields w2_def w1_def)
  have "fst (delete_files w) = (200, Obj [''message'' \<mapsto> JStr ''All files deleted''])
       \<and> disk (snd (delete_files w)) = (disk w)(''data/files.json'' := Holds [])
       \<and> unlinks (events (snd (delete_files w))) = unlinks (events w) @ blob_paths stored_files
       \<and> uploads (snd (delete_files w))
           = uploads w - {p \<in> set (blob_paths stored_files). unlink_faults w p = None}
       \<and> length (console_errors (events (snd (delete_files w))))
           + card (uploads w - uploads (snd (delete_files w)))
           = length (console_errors (events w))
             + length (filter (\<lambda>r. truthy (r ''serverPath'')) stored_files)"
    unfolding res using eff d2
    by (simp add: emit_fields unlinks_append console_errors_append)
  with order show ?thesis
    by blast
qed

theorem delete_files_best_effort_witness:
  "fst (readFiles three_files_world)
     = Inr [[''name'' \<mapsto> JStr ''a.pdf'', ''serverPath'' \<mapsto> JStr ''uploads/a''],
            [''name'' \<mapsto> JStr ''b.pdf'', ''serverPath'' \<mapsto> JStr ''uploads/b''],
            [''name'' \<mapsto> JStr ''c.pdf'', ''serverPath'' \<mapsto> JStr ''uploads/c'']]
   \<and> write_faults three_files_world ''data/files.json'' = None
   \<and> fst (delete_files three_files_world) = (200, Obj [''message'' \<mapsto> JStr ''All files deleted''])
   \<and> disk (snd (delete_files three_files_world)) ''data/files.json'' = Holds []
   \<and> unlinks (events (snd (delete_files three_files_world)))
       = [''uploads/a'', ''uploads/b'', ''uploads/c'']
   \<and> uploads (snd (delete_files three_files_world)) = {''uploads/b''}
   \<and> length (console_errors (events (snd (delete_files three_files_world)))) = 2
   \<and> events (snd (delete_files three_files_world))
       = [ReadFile ''data/files.json'',
          Unlink ''uploads/a'',
          Unlink ''uploads/b'', ConsoleError ''Error deleting file:'',
          Unlink ''uploads/c'', ConsoleError ''Error deleting file:'',
          WriteFile ''data/files.json'']"
proof -
  let ?rs = "[[''name'' \<mapsto> JStr ''a.pdf'', ''serverPath'' \<mapsto> JStr ''uploads/a''],
              [''name'' \<mapsto> JStr ''b.pdf'', ''serverPath'' \<mapsto> JStr ''uploads/b''],
              [''name'' \<mapsto> JStr ''c.pdf'', ''serverPath'' \<mapsto> JStr ''uploads/c'']]"
  have rd: "fst (readFiles three_files_world) = Inr ?rs"
    by (simp add: readFiles_eq three_files_world_def)
  have wf: "write_faults three_files_world ''data/files.json'' = None"
    by (simp add: three_files_world_def)
  have bp: "blob_paths ?rs = [''uploads/a'', ''uploads/b'', ''uploads/c'']"
    by simp
  have ok: "{p \<in> set [''uploads/a'', ''uploads/b'', ''uploads/c''].
              unlink_faults three_files_world p = None} = {''uploads/a'', ''uploads/c''}"
    by (auto simp: three_files_world_def)
  have up: "uploads three_files_world - {''uploads/a'', ''uploads/c''} = {''uploads/b''}"
    by (auto simp: three_files_world_def)
  have gone: "uploads three_files_world - {''uploads/b''} = {''uploads/a''}"
    by (auto simp: three_files_world_def)
  have ev: "events three_files_world = []"
    by (simp add: three_files_world_def)
  note T = delete_files_best_effort [OF rd wf, unfolded bp ok up ev]
  from T have a: "fst (delete_files three_files_world)
                    = (200, Obj [''message'' \<mapsto> JStr ''All files deleted''])"
    by blast
  from T have "disk (snd (delete_files three_files_world))
                 = (disk three_files_world)(''data/files.json'' := Holds [])"
    by blast
  then have b: "disk (snd (delete_files three_files_world)) ''data/files.json'' = Holds []"
    by simp
  from T have "unlinks (events (snd (delete_files three_files_world)))
                 = unlinks [] @ [''uploads/a'', ''uploads/b'', ''uploads/c'']"
    by blast
  then have c: "unlinks (events (snd (delete_files three_files_world)))
                  = [''uploads/a'', ''uploads/b'', ''uploads/c'']"
    by simp
  from T have d: "uploads (snd (delete_files three_files_world)) = {''uploads/b''}"
    by blast
  from T have "length (console_errors (events (snd (delete_files three_files_world))))
           + card (uploads three_files_world - uploads (snd (delete_files three_files_world)))
           = length (console_errors [])
             + length (filter (\<lambda>r. truthy (r ''serverPath'')) ?rs)"
    by blast
  then have e: "length (console_errors (events (snd (delete_files three_files_world)))) = 2"
    unfolding d gone by simp
  have loop: "events (delete_physical_files ?rs
                 (emit (ReadFile ''data/files.json'') three_files_world))
       = [ReadFile ''data/files.json'',
          Unlink ''uploads/a'',
          Unlink ''uploads/b'', ConsoleError ''Error deleting file:'',
          Unlink ''uploads/c'', ConsoleError ''Error deleting file:'']"
    by (simp add: delete_physical_file_def unlink_def emit_def three_files_world_def)
  from T have "events (snd (delete_files three_files_world))
       = events (delete_physical_files ?rs (emit (ReadFile ''data/files.json'') three_files_world))
         @ [WriteFile ''data/files.json'']"
    by blast
  then have f: "events (snd (delete_files three_files_world))
       = [ReadFile ''data/files.json'',
          Unlink ''uploads/a'',
          Unlink ''uploads/b'', ConsoleError ''Error deleting file:'',
          Unlink ''uploads/c'', ConsoleError ''Error deleting file:'',
          WriteFile ''data/files.json'']"
    unfolding loop by simp
  from rd wf a b c d e f show ?thesis by simp
qed

subsection \<open>Uploading files\<close>












subsection \<open>Page count estimation in the widget\<close>

lemma calculateTotalPages_loop_sum:
  "calculateTotalPages_loop random i totalPages fileList
     = totalPages + (\<Sum>k < length fileList. pages_for (random (i + k)) (fileList ! k))"
proof (induction fileList arbitrary: i totalPages)
  case Nil
  show ?case by simp
next
  case (Cons f fileList)
  have "(\<Sum>k < Suc (length fileList). pages_for (random (i + k)) ((f # fileList) ! k))
          = pages_for (random i) f
            + (\<Sum>k < length fileList. pages_for (random (Suc i + k)) (fileList ! k))"
    by (subst sum.lessThan_Suc_shift) simp
  then show ?case
    by (simp add: Cons.IH)
qed

lemma handleFiles_reports:
  assumes "filter isValidFileType newFiles \<noteq> []"
  shows "handleFiles random newFiles st =
           (st\<lparr>files := files st @ filter isValidFileType newFiles\<rparr>,
            [onFilesChange (files st @ filter isValidFileType newFiles),
             onPageCountChange
               (calculateTotalPages random (files st @ filter isValidFileType newFiles)),
             onPageRangeChange
               (if 0 < calculateTotalPages random (files st @ filter isValidFileType newFiles)
                then ''1-'' @ decimal
                       (calculateTotalPages random (files st @ filter isValidFileType newFiles))
                else ''all'')])"
  using assms by (simp add: handleFiles_def Let_def)

text \<open>
  C7. For a held list made of a PDF whose parse yields \<open>P\<close> pages and an accepted file that
  is not a PDF and has \<open>S\<close> bytes, in either order, the total is
  \<open>P + max 1 (S div 50000)\<close>; adding the two to an empty widget reports that count and the
  range \<open>1-\<close> followed by it. In general, whenever \<open>handleFiles\<close> accepts at least one file
  it reports the total over all held files and the range \<open>1-<total>\<close> if the total is
  positive, \<open>all\<close> otherwise.
\<close>

theorem page_count_of_pdf_and_document:
  "(type pdf = ''application/pdf'' \<and> numPages pdf = Some P
    \<and> isValidFileType doc \<and> type doc \<noteq> ''application/pdf'' \<and> file_size doc = S
    \<longrightarrow>
      calculateTotalPages random [pdf, doc] = P + max 1 (S div 50000)
    \<and> calculateTotalPages random [doc, pdf] = P + max 1 (S div 50000)
    \<and> snd (handleFiles random [pdf, doc] \<lparr>files = [], selectedPages = sel\<rparr>)
        = [onFilesChange [pdf, doc],
           onPageCountChange (P + max 1 (S div 50000)),
           onPageRangeChange (''1-'' @ decimal (P + max 1 (S div 50000)))])
   \<and> (filter isValidFileType newFiles \<noteq> [] \<longrightarrow>
        snd (handleFiles random newFiles st)
          = [onFilesChange (files st @ filter isValidFileType newFiles),
             onPageCountChange
               (calculateTotalPages random (files st @ filter isValidFileType newFiles)),
             onPageRangeChange
               (if 0 < calculateTotalPages random (files st @ filter isValidFileType newFiles)
                then ''1-'' @ decimal
                       (calculateTotalPages random (files st @ filter isValidFileType newFiles))
                else ''all'')])"
proof (intro conjI impI)
  assume h: "type pdf = ''application/pdf'' \<and> numPages pdf = Some P
    \<and> isValidFileType doc \<and> type doc \<noteq> ''application/pdf'' \<and> file_size doc = S"
  have vp: "isValidFileType pdf"
    using h by (simp add: isValidFileType_def allowedTypes_def)
  show a: "calculateTotalPages random [pdf, doc] = P + max 1 (S div 50000)"
    using h by (simp add: calculateTotalPages_def pages_for_def)
  show "calculateTotalPages random [doc, pdf] = P + max 1 (S div 50000)"
    using h by (simp add: calculateTotalPages_def pages_for_def)
  define t where "t = P + max 1 (S div 50000)"
  have pos: "0 < t"
    by (simp add: t_def max_def)
  have a': "calculateTotalPages random [pdf, doc] = t"
    unfolding t_def by (rule a)
  have valid: "filter isValidFileType [pdf, doc] = [pdf, doc]"
    using h vp by simp
  have nonempty: "filter isValidFileType [pdf, doc] \<noteq> []"
    unfolding valid by simp
  have "snd (handleFiles random [pdf, doc] \<lparr>files = [], selectedPages = sel\<rparr>)
        = [onFilesChange [pdf, doc], onPageCountChange t, onPageRangeChange (''1-'' @ decimal t)]"
    unfolding handleFiles_reports [OF nonempty] valid
    using pos by (simp add: a')
  then show "snd (handleFiles random [pdf, doc] \<lparr>files = [], selectedPages = sel\<rparr>)
        = [onFilesChange [pdf, doc],
           onPageCountChange (P + max 1 (S div 50000)),
           onPageRangeChange (''1-'' @ decimal (P + max 1 (S div 50000)))]"
    unfolding t_def .
next
  assume "filter isValidFileType newFiles \<noteq> []"
  then show "snd (handleFiles random newFiles st)
          = [onFilesChange (files st @ filter isValidFileType newFiles),
             onPageCountChange
               (calculateTotalPages random (files st @ filter isValidFileType newFiles)),
             onPageRangeChange
               (if 0 < calculateTotalPages random (files st @ filter isValidFileType newFiles)
                then ''1-'' @ decimal
                       (calculateTotalPages random (files st @ filter isValidFileType newFiles))
                else ''all'')]"
    by (simp add: handleFiles_reports)
qed

lemma decimal_9: "decimal 9 = ''9''"
  by (simp add: decimal_small decimal_digit_def)

theorem page_count_of_pdf_and_document_witness:
  "snd (handleFiles (\<lambda>i. 0)
          [\<lparr>name = ''a.pdf'', type = ''application/pdf'', file_size = 300000, numPages = Some 7\<rparr>,
           \<lparr>name = ''b.doc'', type = ''application/msword'', file_size = 120000, numPages = None\<rparr>]
          \<lparr>files = [], selectedPages = []\<rparr>)
     = [onFilesChange
          [\<lparr>name = ''a.pdf'', type = ''application/pdf'', file_size = 300000, numPages = Some 7\<rparr>,
           \<lparr>name = ''b.doc'', type = ''application/msword'', file_size = 120000, numPages = None\<rparr>],
        onPageCountChange 9,
        onPageRangeChange ''1-9'']
   \<and> snd (handleFiles (\<lambda>i. 0)
          [\<lparr>name = ''e.pdf'', type = ''application/pdf'', file_size = 300, numPages = Some 0\<rparr>]
          \<lparr>files = [], selectedPages = []\<rparr>)
     = [onFilesChange
          [\<lparr>name = ''e.pdf'', type = ''application/pdf'', file_size = 300, numPages = Some 0\<rparr>],
        onPageCountChange 0,
        onPageRangeChange ''all'']"
proof -
  let ?pdf = "\<lparr>name = ''a.pdf'', type = ''application/pdf'', file_size = 300000, numPages = Some 7\<rparr>"
  let ?doc = "\<lparr>name = ''b.doc'', type = ''application/msword'', file_size = 120000, numPages = None\<rparr>"
  let ?e = "\<lparr>name = ''e.pdf'', type = ''application/pdf'', file_size = 300, numPages = Some 0\<rparr>"
  let ?st = "\<lparr>files = [], selectedPages = []\<rparr>"
  have h: "type ?pdf = ''application/pdf'' \<and> numPages ?pdf = Some 7
    \<and> isValidFileType ?doc \<and> type ?doc \<noteq> ''application/pdf'' \<and> file_size ?doc = 120000"
    by (simp add: isValidFileType_def allowedTypes_def)
  have v: "filter isValidFileType [?e] = [?e]"
    by (simp add: isValidFileType_def allowedTypes_def)
  have z: "calculateTotalPages (\<lambda>i. 0) [?e] = 0"
    by (simp add: calculateTotalPages_def pages_for_def)
  from page_count_of_pdf_and_document
         [where pdf = ?pdf and doc = ?doc and P = 7 and S = 120000 and random = "\<lambda>i. 0"
            and sel = "[]"] h
  have a: "snd (handleFiles (\<lambda>i. 0) [?pdf, ?doc] ?st)
        = [onFilesChange [?pdf, ?doc],
           onPageCountChange (7 + max 1 (120000 div 50000)),
           onPageRangeChange (''1-'' @ decimal (7 + max 1 (120000 div 50000)))]"
    by blast
  from page_count_of_pdf_and_document
         [where newFiles = "[?e]" and st = ?st and random = "\<lambda>i. 0"] v
  have b: "snd (handleFiles (\<lambda>i. 0) [?e] ?st)
        = [onFilesChange [?e], onPageCountChange 0, onPageRangeChange ''all'']"
    by (simp add: z)
  from a b show ?thesis
    by (simp add: decimal_9)
qed

subsection \<open>Selecting pages in the preview\<close>

lemma sort_distinct_is_sorted_list_of_set:
  "distinct (xs::nat list) \<Longrightarrow> sort xs = sorted_list_of_set (set xs)"
  by (simp add: sorted_list_of_set_sort_remdups distinct_remdups_id)

lemma handlePageSelect_selection:
  "selectedPages (fst (handlePageSelect pageNum st))
     = (if pageNum \<in> set (selectedPages st)
        then removeAll pageNum (selectedPages st)
        else selectedPages st @ [pageNum])"
  by (simp add: handlePageSelect_def Let_def)

lemma handlePageSelect_distinct:
  "distinct (selectedPages st) \<Longrightarrow> distinct (selectedPages (fst (handlePageSelect pageNum st)))"
  by (simp add: handlePageSelect_selection distinct_removeAll)

lemma handlePageSelect_set:
  "set (selectedPages (fst (handlePageSelect pageNum st)))
     = (if pageNum \<in> set (selectedPages st)
        then set (selectedPages st) - {pageNum}
        else insert pageNum (set (selectedPages st)))"
  by (simp add: handlePageSelect_selection)

lemma handlePageSelect_report:
  assumes "distinct (selectedPages st)"
  shows "snd (handlePageSelect pageNum st)
     = [onPageRangeChange
          (if set (selectedPages (fst (handlePageSelect pageNum st))) = {}
           then ''all''
           else join '',''
                  (map decimal
                     (sorted_list_of_set (set (selectedPages (fst (handlePageSelect pageNum st)))))))]"
proof -
  define new where "new = selectedPages (fst (handlePageSelect pageNum st))"
  have d: "distinct new"
    unfolding new_def by (rule handlePageSelect_distinct [OF assms])
  have "snd (handlePageSelect pageNum st)
          = [if length new > 0
             then onPageRangeChange (join '','' (map decimal (sort new)))
             else onPageRangeChange ''all'']"
    unfolding new_def handlePageSelect_selection
    by (simp add: handlePageSelect_def Let_def)
  also have "\<dots> = [onPageRangeChange
          (if set new = {} then ''all''
           else join '','' (map decimal (sorted_list_of_set (set new))))]"
    using d by (simp add: sort_distinct_is_sorted_list_of_set)
  finally show ?thesis
    unfolding new_def .
qed

lemma select_pages_distinct:
  "distinct (selectedPages st) \<Longrightarrow> distinct (selectedPages (fst (select_pages ps st)))"
proof (induction ps arbitrary: st)
  case Nil
  then show ?case by simp
next
  case (Cons p ps)
  from Cons.IH [OF handlePageSelect_distinct [OF Cons.prems, of p]]
  show ?case by (simp add: case_prod_beta)
qed

lemma select_pages_set:
  "set (selectedPages (fst (select_pages ps st)))
     = {p. (p \<in> set (selectedPages st)) \<noteq> odd (count_list ps p)}"
proof (induction ps arbitrary: st)
  case Nil
  show ?case by simp
next
  case (Cons q ps)
  have "set (selectedPages (fst (select_pages (q # ps) st)))
          = {p. (p \<in> set (selectedPages (fst (handlePageSelect q st)))) \<noteq> odd (count_list ps p)}"
    using Cons.IH [of "fst (handlePageSelect q st)"] by (simp add: case_prod_beta)
  also have "\<dots> = {p. (p \<in> set (selectedPages st)) \<noteq> odd (count_list (q # ps) p)}"
    unfolding handlePageSelect_set by auto
  finally show ?case .
qed

lemma select_pages_snoc:
  "select_pages (ps @ [p]) st =
     (fst (handlePageSelect p (fst (select_pages ps st))),
      snd (select_pages ps st) @ snd (handlePageSelect p (fst (select_pages ps st))))"
  by (induction ps arbitrary: st) (simp_all add: case_prod_beta)

lemma select_pages_length: "length (snd (select_pages ps st)) = length ps"
proof (induction ps arbitrary: st)
  case Nil
  show ?case by simp
next
  case (Cons p ps)
  have "length (snd (handlePageSelect p st)) = 1"
    by (simp add: handlePageSelect_def Let_def)
  with Cons.IH [of "fst (handlePageSelect p st)"] show ?case
    by (simp add: case_prod_beta)
qed

text \<open>
  C8. Start from any selection (a set, so without repetitions) and toggle pages, at least
  once. A page is selected afterwards exactly when it was selected before and toggled an
  even number of times, or was not and toggled an odd number of times. Every toggle makes
  one report, and the last report is: the selected page numbers in ascending order, in
  decimal, joined by commas, if any page is selected; \<open>all\<close> if none is. Since this holds
  for every run of toggles it holds after each toggle of a run.
\<close>

theorem select_pages_reports_sorted_selection:
  assumes "distinct (selectedPages st)" "ps \<noteq> []"
  shows "set (selectedPages (fst (select_pages ps st)))
           = {p. (p \<in> set (selectedPages st)) \<noteq> odd (count_list ps p)}
       \<and> length (snd (select_pages ps st)) = length ps
       \<and> last (snd (select_pages ps st))
           = onPageRangeChange
               (if set (selectedPages (fst (select_pages ps st))) = {}
                then ''all''
                else join '',''
                       (map decimal
                          (sorted_list_of_set (set (selectedPages (fst (select_pages ps st)))))))"
proof -
  obtain qs q where ps: "ps = qs @ [q]"
    using assms(2) by (cases ps rule: rev_cases) auto
  define st1 where "st1 = fst (select_pages qs st)"
  have d1: "distinct (selectedPages st1)"
    unfolding st1_def by (rule select_pages_distinct [OF assms(1)])
  have fin: "fst (select_pages ps st) = fst (handlePageSelect q st1)"
    unfolding ps st1_def by (simp add: select_pages_snoc)
  have "last (snd (select_pages ps st)) = last (snd (handlePageSelect q st1))"
    unfolding ps st1_def by (simp add: select_pages_snoc handlePageSelect_report [OF select_pages_distinct [OF assms(1)]])
  also have "\<dots> = onPageRangeChange
               (if set (selectedPages (fst (handlePageSelect q st1))) = {}
                then ''all''
                else join '',''
                       (map decimal
                          (sorted_list_of_set (set (selectedPages (fst (handlePageSelect q st1)))))))"
    by (simp add: handlePageSelect_report [OF d1])
  finally have "last (snd (select_pages ps st))
           = onPageRangeChange
               (if set (selectedPages (fst (select_pages ps st))) = {}
                then ''all''
                else join '',''
                       (map decimal
                          (sorted_list_of_set (set (selectedPages (fst (select_pages ps st)))))))"
    unfolding fin .
  with select_pages_set [of ps st] select_pages_length [of ps st] show ?thesis
    by blast
qed

lemma decimal_2: "decimal 2 = ''2''"
  by (simp add: decimal_small decimal_digit_def)

lemma decimal_4: "decimal 4 = ''4''"
  by (simp add: decimal_small decimal_digit_def)

theorem select_pages_reports_sorted_selection_witness:
  "last (snd (select_pages [2, 4, 2] \<lparr>files = [], selectedPages = []\<rparr>))
     = onPageRangeChange ''4''
   \<and> last (snd (select_pages [2, 4, 2, 4] \<lparr>files = [], selectedPages = []\<rparr>))
     = onPageRangeChange ''all''
   \<and> last (snd (select_pages [4, 2] \<lparr>files = [], selectedPages = []\<rparr>))
     = onPageRangeChange ''2,4''"
proof -
  let ?st = "\<lparr>files = [], selectedPages = []\<rparr>"
  have d: "distinct (selectedPages ?st)" by simp
  have s1: "selectedPages (fst (select_pages [2, 4, 2] ?st)) = [4]"
    by (simp add: handlePageSelect_def Let_def)
  have s2: "selectedPages (fst (select_pages [2, 4, 2, 4] ?st)) = []"
    by (simp add: handlePageSelect_def Let_def)
  have s3: "selectedPages (fst (select_pages [4, 2] ?st)) = [4, 2]"
    by (simp add: handlePageSelect_def Let_def)
  have o3: "sorted_list_of_set (set [4, 2 :: nat]) = [2, 4]"
    using sort_distinct_is_sorted_list_of_set [of "[4, 2]"] by simp
  from select_pages_reports_sorted_selection [OF d, of "[2, 4, 2]"]
  have a: "last (snd (select_pages [2, 4, 2] ?st)) = onPageRangeChange ''4''"
    unfolding s1 by (simp add: decimal_4)
  from select_pages_reports_sorted_selection [OF d, of "[2, 4, 2, 4]"]
  have b: "last (snd (select_pages [2, 4, 2, 4] ?st)) = onPageRangeChange ''all''"
    unfolding s2 by simp
  from select_pages_reports_sorted_selection [OF d, of "[4, 2]"]
  have c: "last (snd (select_pages [4, 2] ?st)) = onPageRangeChange ''2,4''"
    unfolding s3 o3 by (simp add: decimal_4 decimal_2)
  from a b c show ?thesis by simp
qed

end
